theory Spec2Isabelle
  imports Main "HOL-Library.Sublist"
begin

section \<open>The runtime the matchers run on\<close>

text \<open>
  The matchers of \<^verbatim>\<open>matchers/patterns.ts\<close>, \<^verbatim>\<open>matchers/bash.ts\<close> and
  \<^verbatim>\<open>matchers/file.ts\<close> are pure string functions over three services of the host:
  \<^verbatim>\<open>os.homedir()\<close>, the constructor \<^verbatim>\<open>new RegExp(source, flags)\<close> with
  \<^verbatim>\<open>regex.test(s)\<close>, and the string methods of the language. The first two are taken
  as a parameter of every function (\<open>runtime\<close>): the home directory is a string, and the
  regular expression engine maps a source and its flags to \<open>None\<close> when the constructor throws
  a \<^verbatim>\<open>SyntaxError\<close>, and to the test function otherwise. The matchers build every
  regular expression afresh and never with the flags \<^verbatim>\<open>g\<close> or \<^verbatim>\<open>y\<close>, so
  \<^verbatim>\<open>test\<close> reads no \<^verbatim>\<open>lastIndex\<close> and is a function of its argument.

  Strings are \<open>char list\<close>: sequences of 8-bit characters, read as the code points
  U+0000 to U+00FF. \<^verbatim>\<open>toLowerCase\<close> is the lower case of the language on that range: the
  letters A to Z and the Latin-1 capitals U+00C0 to U+00DE (the multiplication sign U+00D7
  is no letter) move up by 32.
\<close>

record runtime =
  homedir :: string
  RegExp :: "string \<Rightarrow> string \<Rightarrow> (string \<Rightarrow> bool) option"

text \<open>
  The answer of the runtime's engine on one source, flags and input: \<open>None\<close> when the
  constructor throws, the result of \<^verbatim>\<open>test\<close> otherwise.
\<close>

definition regex_test :: "runtime \<Rightarrow> string \<Rightarrow> string \<Rightarrow> string \<Rightarrow> bool option" where
  "regex_test rt src flags s = map_option (\<lambda>regex. regex s) (RegExp rt src flags)"

abbreviation BSL :: char where
  "BSL \<equiv> CHR 0x5C"

definition char_code :: "char \<Rightarrow> nat" where
  "char_code c = of_char c"

definition toLowerCase_char :: "char \<Rightarrow> char" where
  "toLowerCase_char c =
     (if (65 \<le> char_code c \<and> char_code c \<le> 90)
         \<or> (192 \<le> char_code c \<and> char_code c \<le> 222 \<and> char_code c \<noteq> 215)
      then char_of (char_code c + 32) else c)"

definition toLowerCase :: "string \<Rightarrow> string" where
  "toLowerCase s = map toLowerCase_char s"

text \<open>\<^verbatim>\<open>s.includes(sub)\<close> and \<^verbatim>\<open>s.startsWith(p)\<close>.\<close>

definition str_includes :: "string \<Rightarrow> string \<Rightarrow> bool" where
  "str_includes s sub = sublist sub s"

definition startsWith :: "string \<Rightarrow> string \<Rightarrow> bool" where
  "startsWith s p = prefix p s"

text \<open>
  \<^verbatim>\<open>String.prototype.replace\<close> expands its replacement string when that is a string: with no
  capture groups, \<^verbatim>\<open>$$\<close> is a dollar sign, \<^verbatim>\<open>$&\<close> the matched text, \<^verbatim>\<open>$`\<close> the text before
  the match, \<^verbatim>\<open>$'\<close> the text after it, and every other character stands for itself
  (the abstract operation GetSubstitution of the language standard).
\<close>

fun getSubstitution :: "string \<Rightarrow> string \<Rightarrow> string \<Rightarrow> string \<Rightarrow> string" where
  "getSubstitution matched before after (c # d # r) =
     (if c = CHR ''$'' \<and> d = CHR ''$'' then CHR ''$'' # getSubstitution matched before after r
      else if c = CHR ''$'' \<and> d = CHR ''&'' then matched @ getSubstitution matched before after r
      else if c = CHR ''$'' \<and> d = CHR 0x60 then before @ getSubstitution matched before after r
      else if c = CHR ''$'' \<and> d = CHR 0x27 then after @ getSubstitution matched before after r
      else c # getSubstitution matched before after (d # r))"
| "getSubstitution matched before after r = r"

text \<open>\<^verbatim>\<open>s.replace(/^~/, replacement)\<close>: a leading tilde is replaced, once.\<close>

definition replace_leading_tilde :: "string \<Rightarrow> string \<Rightarrow> string" where
  "replace_leading_tilde s replacement =
     (case s of
        [] \<Rightarrow> s
      | c # r \<Rightarrow> if c = CHR ''~'' then getSubstitution ''~'' [] r replacement @ r else s)"

text \<open>\<^verbatim>\<open>s.replace(search, replacement)\<close> with a string to search: the first occurrence only.\<close>

fun split_first :: "string \<Rightarrow> string \<Rightarrow> string \<Rightarrow> (string \<times> string) option" where
  "split_first search acc [] = (if search = [] then Some (rev acc, []) else None)"
| "split_first search acc (c # r) =
     (if prefix search (c # r) then Some (rev acc, drop (length search) (c # r))
      else split_first search (c # acc) r)"

definition replace_first :: "string \<Rightarrow> string \<Rightarrow> string \<Rightarrow> string" where
  "replace_first s search replacement =
     (case split_first search [] s of
        None \<Rightarrow> s
      | Some (before, after) \<Rightarrow> before @ getSubstitution search before after replacement @ after)"

text \<open>
  \<^verbatim>\<open>s.replace(/[...]/g, "\\$&")\<close>: every character of the class gets a backslash in front;
  \<^verbatim>\<open>s.replace(/\*/g, ".*")\<close> and \<^verbatim>\<open>s.replace(/\?/g, ".")\<close>: every occurrence of one
  character is replaced; \<^verbatim>\<open>s.replace(/\/$/, "")\<close>: one slash at the very end is dropped.
\<close>

definition escape_chars :: "string \<Rightarrow> string \<Rightarrow> string" where
  "escape_chars specials s = concat (map (\<lambda>c. if c \<in> set specials then [BSL, c] else [c]) s)"

definition replace_all_char :: "char \<Rightarrow> string \<Rightarrow> string \<Rightarrow> string" where
  "replace_all_char x replacement s = concat (map (\<lambda>c. if c = x then replacement else [c]) s)"

definition strip_trailing_slash :: "string \<Rightarrow> string" where
  "strip_trailing_slash s = (if s \<noteq> [] \<and> last s = CHR ''/'' then butlast s else s)"

text \<open>
  \<^verbatim>\<open>basename\<close> of the POSIX \<^verbatim>\<open>path\<close> module, without a suffix: trailing slashes are
  dropped, and what follows the last remaining slash is returned.
\<close>

definition basename :: "string \<Rightarrow> string" where
  "basename p = rev (takeWhile (\<lambda>c. c \<noteq> CHR ''/'') (dropWhile (\<lambda>c. c = CHR ''/'') (rev p)))"

section \<open>A regular expression engine for the operation templates\<close>

text \<open>
  The verdicts on concrete commands and paths depend on what the regular expressions match.
  This section is an engine for the fragment of the ECMAScript pattern language that the
  operation templates and the two glob translations produce: literal characters, escaped
  punctuation, the control escapes, the classes \<^verbatim>\<open>\d \s \w\<close> and their complements, the dot,
  bracketed classes with ranges, the assertions \<^verbatim>\<open>^ $ \b \B\<close>, groups, alternation, the
  lookaheads \<^verbatim>\<open>(?= )\<close> and \<^verbatim>\<open>(?! )\<close>, and the quantifiers \<^verbatim>\<open>* + ?\<close> (greedy or lazy:
  \<^verbatim>\<open>test\<close> only asks whether some match exists). The flags are none or \<^verbatim>\<open>i\<close>.
  A source outside the fragment (braces used as quantifiers, backreferences, named groups,
  lookbehind, a quantifier on a lookahead, escaped letters and digits other than the ones
  above) has no translation here: the parser answers \<open>None\<close>, as it does for the sources
  the constructor rejects (an unbalanced parenthesis, an unterminated class, a quantifier
  with nothing to repeat, a lone backslash at the end, a class range out of order).

  The theorems about every configuration are stated for every engine. The theorems about
  the example commands and paths are stated for every runtime whose engine gives the
  answers of this one on the sources they list (for the commands: on those sources at the
  example commands), all of them in the fragment; their instances are evaluated with this
  engine.
\<close>

datatype cset = Digit | Space | Word

datatype citem = CChar char | CRange char char | CSet bool cset

datatype rx =
    RChar char
  | RAny
  | RClass bool "citem list"
  | RBol
  | REol
  | RWordB bool
  | REps
  | RSeq rx rx
  | RAlt rx rx
  | RStar rx
  | RLook bool rx

definition is_digit :: "char \<Rightarrow> bool" where
  "is_digit c = (48 \<le> char_code c \<and> char_code c \<le> 57)"

text \<open>
  The class \<^verbatim>\<open>\s\<close> is the white space and the line terminators of the language: on the
  8-bit range the characters U+0009 to U+000D, the space and the no-break space U+00A0.
\<close>

definition is_space :: "char \<Rightarrow> bool" where
  "is_space c =
     ((9 \<le> char_code c \<and> char_code c \<le> 13) \<or> char_code c = 32 \<or> char_code c = 160)"

definition is_word :: "char \<Rightarrow> bool" where
  "is_word c =
     (is_digit c \<or> (65 \<le> char_code c \<and> char_code c \<le> 90)
      \<or> (97 \<le> char_code c \<and> char_code c \<le> 122) \<or> char_code c = 95)"

definition is_line_terminator :: "char \<Rightarrow> bool" where
  "is_line_terminator c = (char_code c = 10 \<or> char_code c = 13)"

fun in_cset :: "cset \<Rightarrow> char \<Rightarrow> bool" where
  "in_cset Digit c = is_digit c"
| "in_cset Space c = is_space c"
| "in_cset Word c = is_word c"

text \<open>
  With the flag \<^verbatim>\<open>i\<close> two characters are the same when their upper cases are (the
  operation Canonicalize of the language standard). On the 8-bit range the letters a to z
  and the Latin-1 small letters U+00E0 to U+00FE (the division sign U+00F7 is no letter)
  move down by 32; the sharp s, whose upper case is two letters, stands for itself, and so
  do the micro sign and the y with diaeresis, whose upper cases lie outside the range and
  are shared with no other character of it.
\<close>

definition toUpperCase_char :: "char \<Rightarrow> char" where
  "toUpperCase_char c =
     (if (97 \<le> char_code c \<and> char_code c \<le> 122)
         \<or> (224 \<le> char_code c \<and> char_code c \<le> 254 \<and> char_code c \<noteq> 247)
      then char_of (char_code c - 32) else c)"

definition canonicalize :: "bool \<Rightarrow> char \<Rightarrow> char" where
  "canonicalize ic c = (if ic then toUpperCase_char c else c)"

definition in_range :: "char \<Rightarrow> char \<Rightarrow> char \<Rightarrow> bool" where
  "in_range a b c = (char_code a \<le> char_code c \<and> char_code c \<le> char_code b)"

fun citem_matches :: "bool \<Rightarrow> char \<Rightarrow> citem \<Rightarrow> bool" where
  "citem_matches ic c (CChar a) = (canonicalize ic a = canonicalize ic c)"
| "citem_matches ic c (CRange a b) =
     (in_range a b c
      \<or> (ic \<and> (in_range a b (toUpperCase_char c) \<or> in_range a b (toLowerCase_char c))))"
| "citem_matches ic c (CSet neg s) = (in_cset s c \<noteq> neg)"

text \<open>
  A position in the input is the text already read, reversed, and the text still to read.
  A matcher takes the continuation that has to succeed after it, as in the standard's own
  semantics; a repetition gives up an iteration that consumed nothing, so the number of
  iterations is bounded by the length of the text still to read.
\<close>

type_synonym pos = "string \<times> string"

definition step_char :: "(char \<Rightarrow> bool) \<Rightarrow> (pos \<Rightarrow> bool) \<Rightarrow> pos \<Rightarrow> bool" where
  "step_char P k p = (case snd p of [] \<Rightarrow> False | c # cs \<Rightarrow> P c \<and> k (c # fst p, cs))"

definition at_word_boundary :: "pos \<Rightarrow> bool" where
  "at_word_boundary p =
     ((case fst p of [] \<Rightarrow> False | c # _ \<Rightarrow> is_word c)
      \<noteq> (case snd p of [] \<Rightarrow> False | c # _ \<Rightarrow> is_word c))"

primrec repeat_matcher ::
  "nat \<Rightarrow> ((pos \<Rightarrow> bool) \<Rightarrow> pos \<Rightarrow> bool) \<Rightarrow> (pos \<Rightarrow> bool) \<Rightarrow> pos \<Rightarrow> bool" where
  "repeat_matcher 0 f k p = k p"
| "repeat_matcher (Suc n) f k p =
     (f (\<lambda>q. length (snd q) < length (snd p) \<and> repeat_matcher n f k q) p \<or> k p)"

primrec matcher :: "bool \<Rightarrow> rx \<Rightarrow> (pos \<Rightarrow> bool) \<Rightarrow> pos \<Rightarrow> bool" where
  "matcher ic (RChar a) k p = step_char (\<lambda>c. canonicalize ic a = canonicalize ic c) k p"
| "matcher ic RAny k p = step_char (\<lambda>c. \<not> is_line_terminator c) k p"
| "matcher ic (RClass neg items) k p =
     step_char (\<lambda>c. (\<exists>i \<in> set items. citem_matches ic c i) \<noteq> neg) k p"
| "matcher ic RBol k p = (fst p = [] \<and> k p)"
| "matcher ic REol k p = (snd p = [] \<and> k p)"
| "matcher ic (RWordB neg) k p = ((at_word_boundary p \<noteq> neg) \<and> k p)"
| "matcher ic REps k p = k p"
| "matcher ic (RSeq a b) k p = matcher ic a (matcher ic b k) p"
| "matcher ic (RAlt a b) k p = (matcher ic a k p \<or> matcher ic b k p)"
| "matcher ic (RStar a) k p = repeat_matcher (length (snd p)) (matcher ic a) k p"
| "matcher ic (RLook neg a) k p = ((matcher ic a (\<lambda>_. True) p \<noteq> neg) \<and> k p)"

text \<open>\<^verbatim>\<open>test\<close> without the flag \<^verbatim>\<open>g\<close> tries every start position, from the first on.\<close>

fun search :: "bool \<Rightarrow> rx \<Rightarrow> pos \<Rightarrow> bool" where
  "search ic r (pre, []) = matcher ic r (\<lambda>_. True) (pre, [])"
| "search ic r (pre, c # cs) =
     (matcher ic r (\<lambda>_. True) (pre, c # cs) \<or> search ic r (c # pre, cs))"

subsection \<open>Reading a pattern source\<close>

datatype group_kind = Capture | NonCapture | Lookahead | NegLookahead

datatype quant = QStar | QPlus | QOpt

datatype tok = TAtom rx | TAssert rx | TOpen group_kind | TClose | TBar | TQuant quant

datatype catom = CLit char | CDash | CEsc bool cset

definition control_escape :: "char \<Rightarrow> char option" where
  "control_escape e =
     (if e = CHR ''t'' then Some (CHR 0x09)
      else if e = CHR ''n'' then Some (CHR 0x0A)
      else if e = CHR ''v'' then Some (CHR 0x0B)
      else if e = CHR ''f'' then Some (CHR 0x0C)
      else if e = CHR ''r'' then Some (CHR 0x0D)
      else None)"

definition class_escape_set :: "char \<Rightarrow> (bool \<times> cset) option" where
  "class_escape_set e =
     (if e = CHR ''d'' then Some (False, Digit)
      else if e = CHR ''D'' then Some (True, Digit)
      else if e = CHR ''s'' then Some (False, Space)
      else if e = CHR ''S'' then Some (True, Space)
      else if e = CHR ''w'' then Some (False, Word)
      else if e = CHR ''W'' then Some (True, Word)
      else None)"

definition identity_escape :: "char \<Rightarrow> char option" where
  "identity_escape e = (if is_word e \<or> 128 \<le> char_code e then None else Some e)"

definition atom_escape :: "char \<Rightarrow> tok option" where
  "atom_escape e =
     (if e = CHR ''b'' then Some (TAssert (RWordB False))
      else if e = CHR ''B'' then Some (TAssert (RWordB True))
      else case class_escape_set e of
        Some (neg, s) \<Rightarrow> Some (TAtom (RClass False [CSet neg s]))
      | None \<Rightarrow> (case control_escape e of
          Some c \<Rightarrow> Some (TAtom (RChar c))
        | None \<Rightarrow> map_option (\<lambda>c. TAtom (RChar c)) (identity_escape e)))"

definition class_escape :: "char \<Rightarrow> catom option" where
  "class_escape e =
     (if e = CHR ''b'' then Some (CLit (CHR 0x08))
      else case class_escape_set e of
        Some (neg, s) \<Rightarrow> Some (CEsc neg s)
      | None \<Rightarrow> (case control_escape e of
          Some c \<Rightarrow> Some (CLit c)
        | None \<Rightarrow> map_option CLit (identity_escape e)))"

text \<open>The members of a bracketed class up to the closing bracket, and what follows it.\<close>

fun class_body :: "string \<Rightarrow> (catom list \<times> string) option" where
  "class_body [] = None"
| "class_body (c # cs) =
     (if c = CHR '']'' then Some ([], cs)
      else if c = BSL then
        (case cs of
           [] \<Rightarrow> None
         | e # r \<Rightarrow> (case class_escape e of
               None \<Rightarrow> None
             | Some a \<Rightarrow> map_option (\<lambda>(as, rest). (a # as, rest)) (class_body r)))
      else map_option (\<lambda>(as, rest). ((if c = CHR ''-'' then CDash else CLit c) # as, rest))
             (class_body cs))"

definition catom_char :: "catom \<Rightarrow> char option" where
  "catom_char a = (case a of CLit c \<Rightarrow> Some c | CDash \<Rightarrow> Some (CHR ''-'') | CEsc _ _ \<Rightarrow> None)"

definition catom_item :: "catom \<Rightarrow> citem" where
  "catom_item a =
     (case a of CLit c \<Rightarrow> CChar c | CDash \<Rightarrow> CChar (CHR ''-'') | CEsc neg s \<Rightarrow> CSet neg s)"

fun class_ranges :: "catom list \<Rightarrow> citem list option" where
  "class_ranges (a # CDash # b # rest) =
     (case (catom_char a, catom_char b) of
        (Some x, Some y) \<Rightarrow>
          (if char_code x \<le> char_code y then map_option ((#) (CRange x y)) (class_ranges rest)
           else None)
      | _ \<Rightarrow> None)"
| "class_ranges (a # rest) = map_option ((#) (catom_item a)) (class_ranges rest)"
| "class_ranges [] = Some []"

definition next_tok :: "string \<Rightarrow> (tok \<times> string) option" where
  "next_tok s =
     (case s of
        [] \<Rightarrow> None
      | c # cs \<Rightarrow>
         (if c = BSL then
            (case cs of
               [] \<Rightarrow> None
             | e # r \<Rightarrow> map_option (\<lambda>t. (t, r)) (atom_escape e))
          else if c = CHR ''['' then
            (case class_body (if take 1 cs = ''^'' then drop 1 cs else cs) of
               None \<Rightarrow> None
             | Some (as, r) \<Rightarrow>
                 map_option (\<lambda>items. (TAtom (RClass (take 1 cs = ''^'') items), r))
                   (class_ranges as))
          else if c = CHR ''('' then
            (if take 1 cs = ''?'' then
               (if take 2 cs = ''?:'' then Some (TOpen NonCapture, drop 2 cs)
                else if take 2 cs = ''?='' then Some (TOpen Lookahead, drop 2 cs)
                else if take 2 cs = ''?!'' then Some (TOpen NegLookahead, drop 2 cs)
                else None)
             else Some (TOpen Capture, cs))
          else if c = CHR '')'' then Some (TClose, cs)
          else if c = CHR ''|'' then Some (TBar, cs)
          else if c = CHR ''^'' then Some (TAssert RBol, cs)
          else if c = CHR ''$'' then Some (TAssert REol, cs)
          else if c = CHR ''.'' then Some (TAtom RAny, cs)
          else if c = CHR ''*'' \<or> c = CHR ''+'' \<or> c = CHR ''?'' then
            Some (TQuant (if c = CHR ''*'' then QStar else if c = CHR ''+'' then QPlus else QOpt),
                  if take 1 cs = ''?'' then drop 1 cs else cs)
          else if c = CHR ''{'' then None
          else Some (TAtom (RChar c), cs)))"

lemma class_body_shorter: "class_body s = Some (as, r) \<Longrightarrow> length r < length s"
proof (induction s arbitrary: as r rule: class_body.induct)
  case 1
  then show ?case by simp
next
  case (2 c cs)
  then show ?case
    by (auto split: if_splits list.splits option.splits) fastforce+
qed

lemma next_tok_shorter: "next_tok s = Some (t, r) \<Longrightarrow> length r < length s"
proof (cases s)
  case Nil
  then show "next_tok s = Some (t, r) \<Longrightarrow> length r < length s"
    by (simp add: next_tok_def)
next
  case (Cons c cs)
  assume nt: "next_tok s = Some (t, r)"
  have "length r \<le> length cs"
  proof (cases "c = CHR ''[''")
    case True
    with nt Cons obtain as
      where "class_body (if take 1 cs = ''^'' then drop 1 cs else cs) = Some (as, r)"
      by (auto simp: next_tok_def split: option.splits)
    then have "length r < length (if take 1 cs = ''^'' then drop 1 cs else cs)"
      by (rule class_body_shorter)
    then show ?thesis by (simp split: if_splits)
  next
    case False
    with nt Cons show ?thesis
      by (simp add: next_tok_def split: if_splits list.splits) auto
  qed
  with Cons show "length r < length s" by simp
qed

function tokens :: "string \<Rightarrow> tok list option" where
  "tokens s =
     (if s = [] then Some []
      else case next_tok s of
        None \<Rightarrow> None
      | Some (t, r) \<Rightarrow> map_option ((#) t) (tokens r))"
  by pat_completeness auto
termination
  by (relation "measure length") (auto dest: next_tok_shorter)

declare tokens.simps [simp del]

text \<open>
  The tokens are assembled with a stack of open groups. A frame holds the kind of its group,
  the alternatives already closed by a bar, and the terms of the alternative being read,
  last term first, each with the mark that a quantifier may follow it.
\<close>

type_synonym frame = "group_kind \<times> rx list \<times> (rx \<times> bool) list"

definition seq_of :: "(rx \<times> bool) list \<Rightarrow> rx" where
  "seq_of items = foldl (\<lambda>acc t. RSeq (fst t) acc) REps items"

definition alt_of :: "rx list \<Rightarrow> rx \<Rightarrow> rx" where
  "alt_of alts final = foldl (\<lambda>acc a. RAlt a acc) final alts"

definition apply_quant :: "quant \<Rightarrow> rx \<Rightarrow> rx" where
  "apply_quant q r =
     (case q of QStar \<Rightarrow> RStar r | QPlus \<Rightarrow> RSeq r (RStar r) | QOpt \<Rightarrow> RAlt r REps)"

definition close_group :: "group_kind \<Rightarrow> rx \<Rightarrow> rx \<times> bool" where
  "close_group g r =
     (case g of
        Capture \<Rightarrow> (r, True)
      | NonCapture \<Rightarrow> (r, True)
      | Lookahead \<Rightarrow> (RLook False r, False)
      | NegLookahead \<Rightarrow> (RLook True r, False))"

fun parse_tokens :: "tok list \<Rightarrow> frame list \<Rightarrow> rx option" where
  "parse_tokens [] [(g, alts, cur)] = Some (alt_of alts (seq_of cur))"
| "parse_tokens [] _ = None"
| "parse_tokens (t # ts) [] = None"
| "parse_tokens (TAtom a # ts) ((g, alts, cur) # fs) =
     parse_tokens ts ((g, alts, (a, True) # cur) # fs)"
| "parse_tokens (TAssert a # ts) ((g, alts, cur) # fs) =
     parse_tokens ts ((g, alts, (a, False) # cur) # fs)"
| "parse_tokens (TQuant q # ts) ((g, alts, cur) # fs) =
     (case cur of
        (r, True) # cur' \<Rightarrow> parse_tokens ts ((g, alts, (apply_quant q r, False) # cur') # fs)
      | _ \<Rightarrow> None)"
| "parse_tokens (TOpen g' # ts) fs = parse_tokens ts ((g', [], []) # fs)"
| "parse_tokens (TBar # ts) ((g, alts, cur) # fs) =
     parse_tokens ts ((g, seq_of cur # alts, []) # fs)"
| "parse_tokens (TClose # ts) ((g, alts, cur) # fs) =
     (case fs of
        [] \<Rightarrow> None
      | (g', alts', cur') # fs' \<Rightarrow>
          parse_tokens ts ((g', alts', close_group g (alt_of alts (seq_of cur)) # cur') # fs'))"

definition parse_pattern :: "string \<Rightarrow> rx option" where
  "parse_pattern src =
     (case tokens src of None \<Rightarrow> None | Some ts \<Rightarrow> parse_tokens ts [(NonCapture, [], [])])"

definition ecma_RegExp :: "string \<Rightarrow> string \<Rightarrow> (string \<Rightarrow> bool) option" where
  "ecma_RegExp src flags =
     (if flags \<noteq> [] \<and> flags \<noteq> ''i'' then None
      else map_option (\<lambda>r s. search (flags = ''i'') r ([], s)) (parse_pattern src))"

text \<open>The answer of this engine on one source, flags and input.\<close>

definition ecma_test :: "string \<Rightarrow> string \<Rightarrow> string \<Rightarrow> bool option" where
  "ecma_test src flags s = map_option (\<lambda>regex. regex s) (ecma_RegExp src flags)"

text \<open>The runtime with this engine and a given home directory.\<close>

definition ecma_runtime :: "string \<Rightarrow> runtime" where
  "ecma_runtime home = \<lparr>homedir = home, RegExp = ecma_RegExp\<rparr>"

section \<open>Glob pattern utilities\<close>

definition isGlobPattern :: "string \<Rightarrow> bool" where
  "isGlobPattern pattern =
     (str_includes pattern ''*'' \<or> str_includes pattern ''?'' \<or> str_includes pattern ''['')"

text \<open>The translation used to find a glob inside a command string.\<close>

definition globToRegex :: "string \<Rightarrow> string" where
  "globToRegex globPattern =
     foldl (\<lambda>result char.
        if char = CHR ''*'' then result @ ''[^'' @ BSL # ''s/]*''
        else if char = CHR ''?'' then result @ ''[^'' @ BSL # ''s/]''
        else if str_includes (''.+^${}()|[]'' @ [BSL]) [char] then result @ [BSL, char]
        else result @ [char]) [] globPattern"

text \<open>The translation used to compare a whole path with a glob.\<close>

definition matchGlob :: "runtime \<Rightarrow> string \<Rightarrow> string \<Rightarrow> bool" where
  "matchGlob rt str pattern =
     (let regexPattern =
            replace_all_char (CHR ''?'') ''.''
              (replace_all_char (CHR ''*'') ''.*''
                (escape_chars (''.+^${}()|[]'' @ [BSL]) (toLowerCase pattern)))
      in case RegExp rt (''^'' @ regexPattern @ ''$'') ''i'' of
           None \<Rightarrow> False
         | Some regex \<Rightarrow> regex (toLowerCase str))"

definition matchPath :: "runtime \<Rightarrow> string \<Rightarrow> string \<Rightarrow> bool" where
  "matchPath rt filePath pattern =
     (let expandedPattern = replace_leading_tilde pattern (homedir rt);
          normalized = replace_leading_tilde filePath (homedir rt)
      in if isGlobPattern pattern then
           (let fileBasename = basename normalized
            in if matchGlob rt fileBasename expandedPattern \<or> matchGlob rt fileBasename pattern
               then True
               else if matchGlob rt normalized expandedPattern then True
               else False)
         else
           (if startsWith normalized expandedPattern
               \<or> normalized = strip_trailing_slash expandedPattern
            then True
            else False))"

section \<open>Operation patterns\<close>

type_synonym PatternTuple = "string \<times> string"

definition WRITE_PATTERNS :: "PatternTuple list" where
  "WRITE_PATTERNS =
     [(''>'' @ BSL # ''s*{path}'', ''write''),
      (BSL # ''btee'' @ BSL # ''s+(?!.*-a).*{path}'', ''write'')]"

definition APPEND_PATTERNS :: "PatternTuple list" where
  "APPEND_PATTERNS =
     [(''>>'' @ BSL # ''s*{path}'', ''append''),
      (BSL # ''btee'' @ BSL # ''s+-a'' @ BSL # ''s+.*{path}'', ''append''),
      (BSL # ''btee'' @ BSL # ''s+.*-a.*{path}'', ''append'')]"

definition EDIT_PATTERNS :: "PatternTuple list" where
  "EDIT_PATTERNS =
     [(BSL # ''bsed'' @ BSL # ''s+-i.*{path}'', ''edit''),
      (BSL # ''bperl'' @ BSL # ''s+-[^'' @ BSL # ''s]*i.*{path}'', ''edit''),
      (BSL # ''bawk'' @ BSL # ''s+-i'' @ BSL # ''s+inplace.*{path}'', ''edit'')]"

definition MOVE_COPY_PATTERNS :: "PatternTuple list" where
  "MOVE_COPY_PATTERNS =
     [(BSL # ''bmv'' @ BSL # ''s+.*'' @ BSL # ''s+{path}'', ''move''),
      (BSL # ''bcp'' @ BSL # ''s+.*'' @ BSL # ''s+{path}'', ''copy'')]"

definition DELETE_PATTERNS :: "PatternTuple list" where
  "DELETE_PATTERNS =
     [(BSL # ''brm'' @ BSL # ''s+.*{path}'', ''delete''),
      (BSL # ''bunlink'' @ BSL # ''s+.*{path}'', ''delete''),
      (BSL # ''brmdir'' @ BSL # ''s+.*{path}'', ''delete''),
      (BSL # ''bshred'' @ BSL # ''s+.*{path}'', ''delete'')]"

definition PERMISSION_PATTERNS :: "PatternTuple list" where
  "PERMISSION_PATTERNS =
     [(BSL # ''bchmod'' @ BSL # ''s+.*{path}'', ''chmod''),
      (BSL # ''bchown'' @ BSL # ''s+.*{path}'', ''chown''),
      (BSL # ''bchgrp'' @ BSL # ''s+.*{path}'', ''chgrp'')]"

definition TRUNCATE_PATTERNS :: "PatternTuple list" where
  "TRUNCATE_PATTERNS =
     [(BSL # ''btruncate'' @ BSL # ''s+.*{path}'', ''truncate''),
      ('':'' @ BSL # ''s*>'' @ BSL # ''s*{path}'', ''truncate'')]"

definition READ_ONLY_BLOCKED :: "PatternTuple list" where
  "READ_ONLY_BLOCKED =
     WRITE_PATTERNS @ APPEND_PATTERNS @ EDIT_PATTERNS @ MOVE_COPY_PATTERNS
     @ DELETE_PATTERNS @ PERMISSION_PATTERNS @ TRUNCATE_PATTERNS"

definition NO_DELETE_BLOCKED :: "PatternTuple list" where
  "NO_DELETE_BLOCKED = DELETE_PATTERNS"

section \<open>Types of \<^verbatim>\<open>matchers/patterns.ts\<close> and \<^verbatim>\<open>matchers/bash.ts\<close>\<close>

record BashPattern =
  pattern :: string
  reason :: string
  ask :: "bool option"

record Config =
  bashToolPatterns :: "BashPattern list"
  zeroAccessPaths :: "string list"
  readOnlyPaths :: "string list"
  noDeletePaths :: "string list"

record CheckResult =
  blocked :: bool
  reason :: string

record BashCheckResult = CheckResult +
  wasAskPattern :: "bool option"

section \<open>Path pattern checking for bash commands\<close>

text \<open>
  A \<^verbatim>\<open>for\<close> loop whose body may \<^verbatim>\<open>return\<close> is a recursive function to an option:
  \<open>Some\<close> is the value returned from inside the loop, \<open>None\<close> says that the loop ran to its end.
  A \<^verbatim>\<open>catch\<close> that continues is the branch \<open>None\<close> of the engine's answer.
\<close>

definition operation_verdict :: "string \<Rightarrow> string \<Rightarrow> string \<Rightarrow> CheckResult" where
  "operation_verdict operation pathType path =
     \<lparr>blocked = True,
      reason = ''Blocked: '' @ operation @ '' operation on '' @ pathType @ '' '' @ path\<rparr>"

fun checkPathPatterns_glob ::
  "runtime \<Rightarrow> string \<Rightarrow> string \<Rightarrow> string \<Rightarrow> string \<Rightarrow> PatternTuple list \<Rightarrow> CheckResult option" where
  "checkPathPatterns_glob rt command path pathType globRegex [] = None"
| "checkPathPatterns_glob rt command path pathType globRegex ((patternTemplate, operation) # rest) =
     (let cmdPrefix = replace_first patternTemplate ''{path}'' []
      in if cmdPrefix \<noteq> [] then
           (case RegExp rt (cmdPrefix @ globRegex) ''i'' of
              None \<Rightarrow> checkPathPatterns_glob rt command path pathType globRegex rest
            | Some regex \<Rightarrow>
                if regex command then Some (operation_verdict operation pathType path)
                else checkPathPatterns_glob rt command path pathType globRegex rest)
         else checkPathPatterns_glob rt command path pathType globRegex rest)"

fun checkPathPatterns_literal ::
  "runtime \<Rightarrow> string \<Rightarrow> string \<Rightarrow> string \<Rightarrow> string \<Rightarrow> string \<Rightarrow> PatternTuple list
   \<Rightarrow> CheckResult option" where
  "checkPathPatterns_literal rt command path pathType escapedExpanded escapedOriginal [] = None"
| "checkPathPatterns_literal rt command path pathType escapedExpanded escapedOriginal
     ((patternTemplate, operation) # rest) =
     (let patternExpanded = replace_first patternTemplate ''{path}'' escapedExpanded;
          patternOriginal = replace_first patternTemplate ''{path}'' escapedOriginal
      in case RegExp rt patternExpanded [] of
           None \<Rightarrow>
             checkPathPatterns_literal rt command path pathType escapedExpanded escapedOriginal rest
         | Some regexExpanded \<Rightarrow>
            (case RegExp rt patternOriginal [] of
               None \<Rightarrow>
                 checkPathPatterns_literal rt command path pathType escapedExpanded escapedOriginal rest
             | Some regexOriginal \<Rightarrow>
                 if regexExpanded command \<or> regexOriginal command
                 then Some (operation_verdict operation pathType path)
                 else checkPathPatterns_literal rt command path pathType escapedExpanded
                        escapedOriginal rest))"

definition checkPathPatterns ::
  "runtime \<Rightarrow> string \<Rightarrow> string \<Rightarrow> PatternTuple list \<Rightarrow> string \<Rightarrow> CheckResult" where
  "checkPathPatterns rt command path patterns pathType =
     (case (if isGlobPattern path then
              (let globRegex = globToRegex path
               in checkPathPatterns_glob rt command path pathType globRegex patterns)
            else
              (let expanded = replace_leading_tilde path (homedir rt);
                   escapedExpanded = escape_chars (''.*+?^${}()|[]'' @ [BSL]) expanded;
                   escapedOriginal = escape_chars (''.*+?^${}()|[]'' @ [BSL]) path
               in checkPathPatterns_literal rt command path pathType escapedExpanded
                    escapedOriginal patterns))
      of Some result \<Rightarrow> result
       | None \<Rightarrow> \<lparr>blocked = False, reason = []\<rparr>)"

section \<open>The bash command checker\<close>

text \<open>The four loops of \<^verbatim>\<open>checkBashCommand\<close>, in the order of the source.\<close>

fun checkBashToolPatterns :: "runtime \<Rightarrow> string \<Rightarrow> BashPattern list \<Rightarrow> BashCheckResult option" where
  "checkBashToolPatterns rt command [] = None"
| "checkBashToolPatterns rt command (entry # rest) =
     (case RegExp rt (pattern entry) ''i'' of
        None \<Rightarrow> checkBashToolPatterns rt command rest
      | Some regex \<Rightarrow>
          if regex command then
            Some \<lparr>blocked = True,
                  reason = ''Blocked: '' @ BashPattern.reason entry,
                  wasAskPattern = Some (ask entry = Some True)\<rparr>
          else checkBashToolPatterns rt command rest)"

fun checkZeroAccessPaths :: "runtime \<Rightarrow> string \<Rightarrow> string list \<Rightarrow> BashCheckResult option" where
  "checkZeroAccessPaths rt command [] = None"
| "checkZeroAccessPaths rt command (zeroPath # rest) =
     (if isGlobPattern zeroPath then
        (let globRegex = globToRegex zeroPath
         in case RegExp rt globRegex ''i'' of
              None \<Rightarrow> checkZeroAccessPaths rt command rest
            | Some regex \<Rightarrow>
                if regex command then
                  Some \<lparr>blocked = True,
                        reason = ''Blocked: zero-access pattern '' @ zeroPath
                                 @ '' (no operations allowed)'',
                        wasAskPattern = None\<rparr>
                else checkZeroAccessPaths rt command rest)
      else
        (let expanded = replace_leading_tilde zeroPath (homedir rt)
         in if str_includes command expanded \<or> str_includes command zeroPath then
              Some \<lparr>blocked = True,
                    reason = ''Blocked: zero-access path '' @ zeroPath
                             @ '' (no operations allowed)'',
                    wasAskPattern = None\<rparr>
            else checkZeroAccessPaths rt command rest))"

fun checkOperationPaths ::
  "runtime \<Rightarrow> string \<Rightarrow> PatternTuple list \<Rightarrow> string \<Rightarrow> string list \<Rightarrow> BashCheckResult option" where
  "checkOperationPaths rt command patterns pathType [] = None"
| "checkOperationPaths rt command patterns pathType (path # rest) =
     (let result = checkPathPatterns rt command path patterns pathType
      in if blocked result then
           Some \<lparr>blocked = blocked result, reason = reason result, wasAskPattern = None\<rparr>
         else checkOperationPaths rt command patterns pathType rest)"

definition checkBashCommand :: "runtime \<Rightarrow> string \<Rightarrow> Config \<Rightarrow> BashCheckResult" where
  "checkBashCommand rt command config =
     (case checkBashToolPatterns rt command (bashToolPatterns config) of
        Some result \<Rightarrow> result
      | None \<Rightarrow>
     (case checkZeroAccessPaths rt command (zeroAccessPaths config) of
        Some result \<Rightarrow> result
      | None \<Rightarrow>
     (case checkOperationPaths rt command READ_ONLY_BLOCKED ''read-only path''
             (readOnlyPaths config) of
        Some result \<Rightarrow> result
      | None \<Rightarrow>
     (case checkOperationPaths rt command NO_DELETE_BLOCKED ''no-delete path''
             (noDeletePaths config) of
        Some result \<Rightarrow> result
      | None \<Rightarrow> \<lparr>blocked = False, reason = [], wasAskPattern = None\<rparr>))))"

section \<open>The file path checker\<close>

fun checkZeroAccessFile :: "runtime \<Rightarrow> string \<Rightarrow> string list \<Rightarrow> CheckResult option" where
  "checkZeroAccessFile rt filePath [] = None"
| "checkZeroAccessFile rt filePath (zeroPath # rest) =
     (if matchPath rt filePath zeroPath then
        Some \<lparr>blocked = True,
              reason = ''zero-access path '' @ zeroPath @ '' (no operations allowed)''\<rparr>
      else checkZeroAccessFile rt filePath rest)"

fun checkReadOnlyFile :: "runtime \<Rightarrow> string \<Rightarrow> string list \<Rightarrow> CheckResult option" where
  "checkReadOnlyFile rt filePath [] = None"
| "checkReadOnlyFile rt filePath (readonlyPath # rest) =
     (if matchPath rt filePath readonlyPath then
        Some \<lparr>blocked = True, reason = ''read-only path '' @ readonlyPath\<rparr>
      else checkReadOnlyFile rt filePath rest)"

definition checkFilePath :: "runtime \<Rightarrow> string \<Rightarrow> Config \<Rightarrow> CheckResult" where
  "checkFilePath rt filePath config =
     (case checkZeroAccessFile rt filePath (zeroAccessPaths config) of
        Some result \<Rightarrow> result
      | None \<Rightarrow>
     (case checkReadOnlyFile rt filePath (readOnlyPaths config) of
        Some result \<Rightarrow> result
      | None \<Rightarrow> \<lparr>blocked = False, reason = []\<rparr>))"

definition checkFilePathZeroAccessOnly :: "runtime \<Rightarrow> string \<Rightarrow> Config \<Rightarrow> CheckResult" where
  "checkFilePathZeroAccessOnly rt filePath config =
     (case checkZeroAccessFile rt filePath (zeroAccessPaths config) of
        Some result \<Rightarrow> result
      | None \<Rightarrow> \<lparr>blocked = False, reason = []\<rparr>)"

text \<open>The configuration \<^verbatim>\<open>loadConfig\<close> returns when there is no pattern file.\<close>

definition emptyConfig :: Config where
  "emptyConfig =
     \<lparr>bashToolPatterns = [], zeroAccessPaths = [], readOnlyPaths = [], noDeletePaths = []\<rparr>"

section \<open>What it means for an entry to match\<close>

text \<open>
  The conditions under which each loop of \<^verbatim>\<open>checkBashCommand\<close> returns, stated for one
  entry: the command matches a command pattern when the pattern compiles and its
  case-insensitive, unanchored search succeeds; it matches a zero-access specifier when the
  translated glob is found in it or, for a literal, when it contains the specifier as typed
  or with the home directory expanded; an operation on a path specifier is detected when
  \<^verbatim>\<open>checkPathPatterns\<close> blocks.
\<close>

definition bash_pattern_matches :: "runtime \<Rightarrow> string \<Rightarrow> BashPattern \<Rightarrow> bool" where
  "bash_pattern_matches rt command entry =
     (case RegExp rt (pattern entry) ''i'' of None \<Rightarrow> False | Some regex \<Rightarrow> regex command)"

definition bash_pattern_verdict :: "BashPattern \<Rightarrow> BashCheckResult" where
  "bash_pattern_verdict entry =
     \<lparr>blocked = True,
      reason = ''Blocked: '' @ BashPattern.reason entry,
      wasAskPattern = Some (ask entry = Some True)\<rparr>"

definition zero_access_matches :: "runtime \<Rightarrow> string \<Rightarrow> string \<Rightarrow> bool" where
  "zero_access_matches rt command zeroPath =
     (if isGlobPattern zeroPath then
        (case RegExp rt (globToRegex zeroPath) ''i'' of
           None \<Rightarrow> False
         | Some regex \<Rightarrow> regex command)
      else str_includes command (replace_leading_tilde zeroPath (homedir rt))
           \<or> str_includes command zeroPath)"

definition zero_access_verdict :: "string \<Rightarrow> BashCheckResult" where
  "zero_access_verdict zeroPath =
     \<lparr>blocked = True,
      reason = (if isGlobPattern zeroPath then ''Blocked: zero-access pattern ''
                else ''Blocked: zero-access path '') @ zeroPath @ '' (no operations allowed)'',
      wasAskPattern = None\<rparr>"

definition operation_blocks :: "runtime \<Rightarrow> string \<Rightarrow> PatternTuple list \<Rightarrow> string \<Rightarrow> string \<Rightarrow> bool" where
  "operation_blocks rt command patterns pathType path =
     blocked (checkPathPatterns rt command path patterns pathType)"

definition as_bash_result :: "CheckResult \<Rightarrow> BashCheckResult" where
  "as_bash_result result =
     \<lparr>blocked = blocked result, reason = reason result, wasAskPattern = None\<rparr>"

text \<open>
  A small policy in the style of the pattern file the plugin ships with, for the concrete
  instances below: a command pattern that does not compile, the pattern for
  \<^verbatim>\<open>rm -rf\<close> flagged advisory, and one or two specifiers in each path tier.
\<close>

definition sample_policy :: Config where
  "sample_policy =
     \<lparr>bashToolPatterns =
        [\<lparr>pattern = ''('', reason = ''unbalanced parenthesis'', ask = None\<rparr>,
         \<lparr>pattern = BSL # ''brm'' @ BSL # ''s+-rf'', reason = ''rm with recursive force'',
          ask = Some True\<rparr>],
      zeroAccessPaths = [''.env'', ''*.pem''],
      readOnlyPaths = [''/etc/''],
      noDeletePaths = [''LICENSE'']\<rparr>"

section \<open>The engine on the idioms of the templates\<close>

text \<open>
  What the engine answers on the constructs the templates are made of: the word boundary
  in front of a command name, the negative lookahead of the \<^verbatim>\<open>tee\<close> template, the negated
  class of the \<^verbatim>\<open>perl\<close> template and of the glob translation, case folding under the flag
  \<^verbatim>\<open>i\<close>, and sources that do not compile.
\<close>

lemma engine_word_boundary:
  "ecma_test (BSL # ''brm'' @ BSL # ''s+.*LICENSE'') [] ''rm -f ./LICENSE'' = Some True
   \<and> ecma_test (BSL # ''brm'' @ BSL # ''s+.*LICENSE'') [] ''farm LICENSE'' = Some False
   \<and> ecma_test (BSL # ''brm'' @ BSL # ''s+.*LICENSE'') [] ''rm license'' = Some False
   \<and> ecma_test (BSL # ''brm'' @ BSL # ''s+.*LICENSE'') ''i'' ''RM license'' = Some True"
  by code_simp

lemma engine_negative_lookahead:
  "ecma_test (BSL # ''btee'' @ BSL # ''s+(?!.*-a).*/etc/'') [] ''cat x | tee /etc/hosts'' = Some True
   \<and> ecma_test (BSL # ''btee'' @ BSL # ''s+(?!.*-a).*/etc/'') [] ''cat x | tee -a /etc/hosts''
       = Some False
   \<and> ecma_test (BSL # ''btee'' @ BSL # ''s+.*-a.*/etc/'') [] ''cat x | tee -a /etc/hosts''
       = Some True"
  by code_simp

lemma engine_negated_class:
  "ecma_test (BSL # ''bperl'' @ BSL # ''s+-[^'' @ BSL # ''s]*i.*/etc/'') []
       ''perl -pi -e s/a/b/ /etc/hosts'' = Some True
   \<and> ecma_test (BSL # ''bperl'' @ BSL # ''s+-[^'' @ BSL # ''s]*i.*/etc/'') []
       ''perl -p -e s/a/b/ /etc/hosts'' = Some False
   \<and> ecma_test (''[^'' @ BSL # ''s/]*'' @ BSL # ''.pem'') ''i'' ''cat keys/server.PEM'' = Some True
   \<and> ecma_test (''[^'' @ BSL # ''s/]*'' @ BSL # ''.pem'') ''i'' ''cat keys/server.pex'' = Some False"
  by code_simp

lemma engine_white_space:
  "ecma_test (BSL # ''brm'' @ BSL # ''s+.*LICENSE'') [] (''rm'' @ [CHR 0xA0] @ ''LICENSE'') = Some True
   \<and> ecma_test (BSL # ''brm'' @ BSL # ''s+.*LICENSE'') [] (''rm'' @ [CHR 0x09] @ ''LICENSE'')
       = Some True
   \<and> ecma_test (BSL # ''brm'' @ BSL # ''s+.*LICENSE'') [] (''rm'' @ [CHR 0x85] @ ''LICENSE'')
       = Some False
   \<and> ecma_test (''^'' @ BSL # ''S+$'') [] [CHR 0xA0] = Some False"
  by code_simp

lemma engine_case_folding:
  "ecma_test [CHR 0xE9] ''i'' [CHR 0xC9] = Some True
   \<and> ecma_test [CHR 0xE9] [] [CHR 0xC9] = Some False
   \<and> ecma_test [CHR 0xF7] ''i'' [CHR 0xD7] = Some False
   \<and> ecma_test [CHR 0xFF] ''i'' [CHR 0xDF] = Some False
   \<and> toLowerCase (''Caf'' @ [CHR 0xC9]) = ''caf'' @ [CHR 0xE9]
   \<and> toLowerCase [CHR 0xD7] = [CHR 0xD7]"
  by code_simp

lemma engine_rejected_sources:
  "ecma_test ''('' ''i'' ''abcd'' = None
   \<and> ecma_test ''a)'' ''i'' ''abcd'' = None
   \<and> ecma_test ''[a'' ''i'' ''abcd'' = None
   \<and> ecma_test ''[c-a]'' ''i'' ''abcd'' = None
   \<and> ecma_test ''*a'' ''i'' ''abcd'' = None
   \<and> ecma_test ''a**'' ''i'' ''abcd'' = None
   \<and> ecma_test [BSL] ''i'' ''abcd'' = None"
  by code_simp

lemma engine_anchors_and_alternation:
  "ecma_test ''^(a|b)+$'' [] ''abba'' = Some True
   \<and> ecma_test ''^(a|b)+$'' [] ''abca'' = Some False
   \<and> ecma_test ''^(?:a*)*$'' [] ''aab'' = Some False
   \<and> ecma_test ''^[a-c]+$'' ''i'' ''aBc'' = Some True
   \<and> ecma_test ''^[a-c]+$'' [] ''aBc'' = Some False
   \<and> ecma_test [] [] ''zzz'' = Some True"
  by code_simp

text \<open>The sources the literal branch of \<^verbatim>\<open>checkPathPatterns\<close> builds for the two examples.\<close>

lemma no_delete_sources_LICENSE:
  "map (\<lambda>template. replace_first template ''{path}'' ''LICENSE'') (map fst NO_DELETE_BLOCKED)
   = [BSL # ''brm'' @ BSL # ''s+.*LICENSE'',
      BSL # ''bunlink'' @ BSL # ''s+.*LICENSE'',
      BSL # ''brmdir'' @ BSL # ''s+.*LICENSE'',
      BSL # ''bshred'' @ BSL # ''s+.*LICENSE'']"
  by code_simp

lemma read_only_sources_etc:
  "map (\<lambda>template. replace_first template ''{path}'' ''/etc/'') (map fst READ_ONLY_BLOCKED)
   = [''>'' @ BSL # ''s*/etc/'',
      BSL # ''btee'' @ BSL # ''s+(?!.*-a).*/etc/'',
      ''>>'' @ BSL # ''s*/etc/'',
      BSL # ''btee'' @ BSL # ''s+-a'' @ BSL # ''s+.*/etc/'',
      BSL # ''btee'' @ BSL # ''s+.*-a.*/etc/'',
      BSL # ''bsed'' @ BSL # ''s+-i.*/etc/'',
      BSL # ''bperl'' @ BSL # ''s+-[^'' @ BSL # ''s]*i.*/etc/'',
      BSL # ''bawk'' @ BSL # ''s+-i'' @ BSL # ''s+inplace.*/etc/'',
      BSL # ''bmv'' @ BSL # ''s+.*'' @ BSL # ''s+/etc/'',
      BSL # ''bcp'' @ BSL # ''s+.*'' @ BSL # ''s+/etc/'',
      BSL # ''brm'' @ BSL # ''s+.*/etc/'',
      BSL # ''bunlink'' @ BSL # ''s+.*/etc/'',
      BSL # ''brmdir'' @ BSL # ''s+.*/etc/'',
      BSL # ''bshred'' @ BSL # ''s+.*/etc/'',
      BSL # ''bchmod'' @ BSL # ''s+.*/etc/'',
      BSL # ''bchown'' @ BSL # ''s+.*/etc/'',
      BSL # ''bchgrp'' @ BSL # ''s+.*/etc/'',
      BSL # ''btruncate'' @ BSL # ''s+.*/etc/'',
      '':'' @ BSL # ''s*>'' @ BSL # ''s*/etc/'']"
  by code_simp

section \<open>The loops as searches for the first matching entry\<close>

lemma checkBashToolPatterns_find:
  "checkBashToolPatterns rt command entries =
     map_option bash_pattern_verdict (find (bash_pattern_matches rt command) entries)"
  by (induction entries)
     (simp_all add: bash_pattern_matches_def bash_pattern_verdict_def split: option.splits)

lemma checkZeroAccessPaths_find:
  "checkZeroAccessPaths rt command paths =
     map_option zero_access_verdict (find (zero_access_matches rt command) paths)"
  by (induction paths)
     (simp_all add: zero_access_matches_def zero_access_verdict_def Let_def split: option.splits)

lemma checkOperationPaths_find:
  "checkOperationPaths rt command patterns pathType paths =
     map_option (\<lambda>path. as_bash_result (checkPathPatterns rt command path patterns pathType))
       (find (operation_blocks rt command patterns pathType) paths)"
  by (induction paths) (simp_all add: operation_blocks_def as_bash_result_def Let_def)

lemma checkZeroAccessFile_find:
  "checkZeroAccessFile rt filePath paths =
     map_option (\<lambda>zeroPath. \<lparr>blocked = True,
         reason = ''zero-access path '' @ zeroPath @ '' (no operations allowed)''\<rparr>)
       (find (matchPath rt filePath) paths)"
  by (induction paths) simp_all

lemma checkReadOnlyFile_find:
  "checkReadOnlyFile rt filePath paths =
     map_option (\<lambda>readonlyPath. \<lparr>blocked = True, reason = ''read-only path '' @ readonlyPath\<rparr>)
       (find (matchPath rt filePath) paths)"
  by (induction paths) simp_all

lemma find_Some_of_member: "x \<in> set xs \<Longrightarrow> P x \<Longrightarrow> \<exists>y. find P xs = Some y \<and> P y"
  by (induction xs) auto

lemma find_removeAll_not: "\<not> P x \<Longrightarrow> find P (removeAll x xs) = find P xs"
  by (induction xs) auto

lemma checkBashCommand_first_match:
  "checkBashCommand rt command config =
     (case find (bash_pattern_matches rt command) (bashToolPatterns config) of
        Some entry \<Rightarrow> bash_pattern_verdict entry
      | None \<Rightarrow>
     (case find (zero_access_matches rt command) (zeroAccessPaths config) of
        Some zeroPath \<Rightarrow> zero_access_verdict zeroPath
      | None \<Rightarrow>
     (case find (operation_blocks rt command READ_ONLY_BLOCKED ''read-only path'')
             (readOnlyPaths config) of
        Some path \<Rightarrow>
          as_bash_result (checkPathPatterns rt command path READ_ONLY_BLOCKED ''read-only path'')
      | None \<Rightarrow>
     (case find (operation_blocks rt command NO_DELETE_BLOCKED ''no-delete path'')
             (noDeletePaths config) of
        Some path \<Rightarrow>
          as_bash_result (checkPathPatterns rt command path NO_DELETE_BLOCKED ''no-delete path'')
      | None \<Rightarrow> \<lparr>blocked = False, reason = [], wasAskPattern = None\<rparr>))))"
  unfolding checkBashCommand_def checkBashToolPatterns_find checkZeroAccessPaths_find
    checkOperationPaths_find
  by (simp split: option.splits)

lemma blocked_case_find:
  assumes "\<And>x. P x \<Longrightarrow> blocked (V x)"
  shows "blocked (case find P xs of None \<Rightarrow> d | Some x \<Rightarrow> V x)
         \<longleftrightarrow> (\<exists>x \<in> set xs. P x) \<or> blocked d"
  by (induction xs) (auto simp: assms)

lemma checkBashCommand_blocked_iff:
  "blocked (checkBashCommand rt command config) \<longleftrightarrow>
     (\<exists>entry \<in> set (bashToolPatterns config). bash_pattern_matches rt command entry)
     \<or> (\<exists>zeroPath \<in> set (zeroAccessPaths config). zero_access_matches rt command zeroPath)
     \<or> (\<exists>path \<in> set (readOnlyPaths config).
           operation_blocks rt command READ_ONLY_BLOCKED ''read-only path'' path)
     \<or> (\<exists>path \<in> set (noDeletePaths config).
           operation_blocks rt command NO_DELETE_BLOCKED ''no-delete path'' path)"
proof -
  have v1: "\<And>e. blocked (bash_pattern_verdict e)"
    by (simp add: bash_pattern_verdict_def)
  have v2: "\<And>z. blocked (zero_access_verdict z)"
    by (simp add: zero_access_verdict_def)
  have v3: "\<And>pats ty p. operation_blocks rt command pats ty p
              \<Longrightarrow> blocked (as_bash_result (checkPathPatterns rt command p pats ty))"
    by (simp add: operation_blocks_def as_bash_result_def)
  show ?thesis
    unfolding checkBashCommand_first_match
    by (subst blocked_case_find, simp add: v1,
        subst blocked_case_find, simp add: v2,
        subst blocked_case_find, erule v3,
        subst blocked_case_find, erule v3, simp)
qed

lemma checkFilePathZeroAccessOnly_blocked_iff:
  "blocked (checkFilePathZeroAccessOnly rt filePath config) \<longleftrightarrow>
     (\<exists>zeroPath \<in> set (zeroAccessPaths config). matchPath rt filePath zeroPath)"
proof -
  have "\<And>zs. blocked (case checkZeroAccessFile rt filePath zs of
            Some result \<Rightarrow> result
          | None \<Rightarrow> \<lparr>blocked = False, reason = []\<rparr>)
        \<longleftrightarrow> (\<exists>z \<in> set zs. matchPath rt filePath z)"
  proof -
    fix zs
    show "blocked (case checkZeroAccessFile rt filePath zs of
            Some result \<Rightarrow> result
          | None \<Rightarrow> \<lparr>blocked = False, reason = []\<rparr>)
        \<longleftrightarrow> (\<exists>z \<in> set zs. matchPath rt filePath z)"
      by (induction zs) auto
  qed
  then show ?thesis
    by (simp add: checkFilePathZeroAccessOnly_def)
qed

lemma checkFilePath_blocked_iff:
  "blocked (checkFilePath rt filePath config) \<longleftrightarrow>
     (\<exists>zeroPath \<in> set (zeroAccessPaths config). matchPath rt filePath zeroPath)
     \<or> (\<exists>readonlyPath \<in> set (readOnlyPaths config). matchPath rt filePath readonlyPath)"
proof -
  have "\<And>zs rs. blocked (case checkZeroAccessFile rt filePath zs of
            Some result \<Rightarrow> result
          | None \<Rightarrow> (case checkReadOnlyFile rt filePath rs of
              Some result \<Rightarrow> result
            | None \<Rightarrow> \<lparr>blocked = False, reason = []\<rparr>))
        \<longleftrightarrow> (\<exists>z \<in> set zs. matchPath rt filePath z) \<or> (\<exists>r \<in> set rs. matchPath rt filePath r)"
  proof -
    fix zs rs
    have ro: "blocked (case checkReadOnlyFile rt filePath rs of
              Some result \<Rightarrow> result
            | None \<Rightarrow> \<lparr>blocked = False, reason = []\<rparr>) \<longleftrightarrow> (\<exists>r \<in> set rs. matchPath rt filePath r)"
      by (induction rs) auto
    show "blocked (case checkZeroAccessFile rt filePath zs of
            Some result \<Rightarrow> result
          | None \<Rightarrow> (case checkReadOnlyFile rt filePath rs of
              Some result \<Rightarrow> result
            | None \<Rightarrow> \<lparr>blocked = False, reason = []\<rparr>))
        \<longleftrightarrow> (\<exists>z \<in> set zs. matchPath rt filePath z) \<or> (\<exists>r \<in> set rs. matchPath rt filePath r)"
      using ro by (induction zs) auto
  qed
  then show ?thesis
    by (simp add: checkFilePath_def)
qed

lemma find_map_ask:
  "find (bash_pattern_matches rt command) (map (\<lambda>e. e\<lparr>ask := f e\<rparr>) entries) =
     map_option (\<lambda>e. e\<lparr>ask := f e\<rparr>) (find (bash_pattern_matches rt command) entries)"
  by (induction entries) (simp_all add: bash_pattern_matches_def)

lemma find_append_skip:
  "\<not> P x \<Longrightarrow> find P (xs @ x # ys) = find P (xs @ ys)"
  by (induction xs) auto

lemma matchPath_empty_specifier: "matchPath rt filePath []"
  by (simp add: matchPath_def isGlobPattern_def str_includes_def replace_leading_tilde_def
      startsWith_def)

lemma zero_access_matches_empty_specifier: "zero_access_matches rt command []"
  by (simp add: zero_access_matches_def isGlobPattern_def str_includes_def)

lemma checkZeroAccessFile_removeAll:
  "\<not> matchPath rt filePath z
   \<Longrightarrow> checkZeroAccessFile rt filePath (removeAll z zs) = checkZeroAccessFile rt filePath zs"
  by (simp add: checkZeroAccessFile_find find_removeAll_not)

lemma checkOperationPaths_removeAll:
  "\<not> blocked (checkPathPatterns rt command path patterns pathType)
   \<Longrightarrow> checkOperationPaths rt command patterns pathType (removeAll path paths)
       = checkOperationPaths rt command patterns pathType paths"
  by (simp add: checkOperationPaths_find find_removeAll_not operation_blocks_def)

lemma checkPathPatterns_glob_names_operation:
  "checkPathPatterns_glob rt command path pathType globRegex patterns = Some result
   \<Longrightarrow> \<exists>p \<in> set patterns. result = operation_verdict (snd p) pathType path"
proof (induction patterns)
  case Nil
  then show ?case by simp
next
  case (Cons p patterns)
  obtain template operation where p: "p = (template, operation)"
    by (cases p)
  show ?case
  proof (cases "checkPathPatterns_glob rt command path pathType globRegex (p # patterns)
                = checkPathPatterns_glob rt command path pathType globRegex patterns")
    case True
    with Cons.prems Cons.IH show ?thesis by simp
  next
    case False
    then have "checkPathPatterns_glob rt command path pathType globRegex (p # patterns)
               = Some (operation_verdict operation pathType path)"
      by (simp add: p Let_def split: if_splits option.splits)
    with Cons.prems p show ?thesis by simp
  qed
qed

lemma checkPathPatterns_literal_names_operation:
  "checkPathPatterns_literal rt command path pathType escapedExpanded escapedOriginal patterns
     = Some result
   \<Longrightarrow> \<exists>p \<in> set patterns. result = operation_verdict (snd p) pathType path"
proof (induction patterns)
  case Nil
  then show ?case by simp
next
  case (Cons p patterns)
  obtain template operation where p: "p = (template, operation)"
    by (cases p)
  show ?case
  proof (cases "checkPathPatterns_literal rt command path pathType escapedExpanded
                  escapedOriginal (p # patterns)
                = checkPathPatterns_literal rt command path pathType escapedExpanded
                    escapedOriginal patterns")
    case True
    with Cons.prems Cons.IH show ?thesis by simp
  next
    case False
    then have "checkPathPatterns_literal rt command path pathType escapedExpanded
                 escapedOriginal (p # patterns)
               = Some (operation_verdict operation pathType path)"
      by (simp add: p Let_def split: if_splits option.splits)
    with Cons.prems p show ?thesis by simp
  qed
qed

lemma checkPathPatterns_names_operation:
  assumes "blocked (checkPathPatterns rt command path patterns pathType)"
  shows "\<exists>p \<in> set patterns.
           checkPathPatterns rt command path patterns pathType
           = operation_verdict (snd p) pathType path"
proof (cases "isGlobPattern path")
  case True
  with assms obtain result
    where "checkPathPatterns_glob rt command path pathType (globToRegex path) patterns
           = Some result"
      and "checkPathPatterns rt command path patterns pathType = result"
    by (auto simp: checkPathPatterns_def Let_def split: option.splits)
  then show ?thesis
    using checkPathPatterns_glob_names_operation by blast
next
  case False
  with assms obtain result
    where "checkPathPatterns_literal rt command path pathType
             (escape_chars (''.*+?^${}()|[]'' @ [BSL]) (replace_leading_tilde path (homedir rt)))
             (escape_chars (''.*+?^${}()|[]'' @ [BSL]) path) patterns = Some result"
      and "checkPathPatterns rt command path patterns pathType = result"
    by (auto simp: checkPathPatterns_def Let_def split: option.splits)
  then show ?thesis
    using checkPathPatterns_literal_names_operation by blast
qed

lemma find_Some_holds: "find P xs = Some x \<Longrightarrow> x \<in> set xs \<and> P x"
  by (induction xs) (auto split: if_splits)

lemma replace_leading_tilde_no_tilde:
  "\<not> prefix ''~'' path \<Longrightarrow> replace_leading_tilde path home = path"
  by (cases path) (simp_all add: replace_leading_tilde_def)

lemma regex_test_ecma_runtime:
  "regex_test (ecma_runtime home) src flags s = ecma_test src flags s"
  by (simp add: regex_test_def ecma_test_def ecma_runtime_def)

text \<open>
  One round of the literal loop reads the engine only through its answers at the command.
\<close>

lemma checkPathPatterns_literal_step:
  "checkPathPatterns_literal rt command path pathType escapedExpanded escapedOriginal
     ((template, operation) # rest) =
     (case regex_test rt (replace_first template ''{path}'' escapedExpanded) [] command of
        None \<Rightarrow>
          checkPathPatterns_literal rt command path pathType escapedExpanded escapedOriginal rest
      | Some hitExpanded \<Rightarrow>
         (case regex_test rt (replace_first template ''{path}'' escapedOriginal) [] command of
            None \<Rightarrow>
              checkPathPatterns_literal rt command path pathType escapedExpanded escapedOriginal
                rest
          | Some hitOriginal \<Rightarrow>
              if hitExpanded \<or> hitOriginal
              then Some (operation_verdict operation pathType path)
              else checkPathPatterns_literal rt command path pathType escapedExpanded
                     escapedOriginal rest))"
  by (simp add: regex_test_def Let_def split: option.splits)

lemma checkPathPatterns_literal_engines:
  assumes "\<forall>template \<in> set (map fst patterns).
             regex_test rt (replace_first template ''{path}'' escapedExpanded) [] command
               = regex_test rt' (replace_first template ''{path}'' escapedExpanded) [] command
             \<and> regex_test rt (replace_first template ''{path}'' escapedOriginal) [] command
               = regex_test rt' (replace_first template ''{path}'' escapedOriginal) [] command"
  shows "checkPathPatterns_literal rt command path pathType escapedExpanded escapedOriginal patterns
         = checkPathPatterns_literal rt' command path pathType escapedExpanded escapedOriginal
             patterns"
  using assms
proof (induction patterns)
  case Nil
  show ?case by simp
next
  case (Cons p patterns)
  obtain template operation where p: "p = (template, operation)"
    by (cases p)
  from Cons.prems p
  have here: "regex_test rt (replace_first template ''{path}'' escapedExpanded) [] command
               = regex_test rt' (replace_first template ''{path}'' escapedExpanded) [] command"
    and there: "regex_test rt (replace_first template ''{path}'' escapedOriginal) [] command
               = regex_test rt' (replace_first template ''{path}'' escapedOriginal) [] command"
    by simp_all
  from Cons.prems
  have rest: "checkPathPatterns_literal rt command path pathType escapedExpanded escapedOriginal
                patterns
              = checkPathPatterns_literal rt' command path pathType escapedExpanded
                  escapedOriginal patterns"
    by (intro Cons.IH) simp
  show ?case
    unfolding p checkPathPatterns_literal_step here there rest ..
qed

lemma checkPathPatterns_literal_reference:
  assumes literal: "\<not> isGlobPattern path"
    and no_tilde: "\<not> prefix ''~'' path"
    and escaped: "escape_chars (''.*+?^${}()|[]'' @ [BSL]) path = escaped"
    and agree: "\<forall>template \<in> set (map fst patterns).
                  regex_test rt (replace_first template ''{path}'' escaped) [] command
                  = ecma_test (replace_first template ''{path}'' escaped) [] command"
  shows "checkPathPatterns rt command path patterns pathType
         = checkPathPatterns (ecma_runtime home) command path patterns pathType"
proof -
  from agree
  have "\<forall>template \<in> set (map fst patterns).
             regex_test rt (replace_first template ''{path}'' escaped) [] command
               = regex_test (ecma_runtime home) (replace_first template ''{path}'' escaped) []
                   command
             \<and> regex_test rt (replace_first template ''{path}'' escaped) [] command
               = regex_test (ecma_runtime home) (replace_first template ''{path}'' escaped) []
                   command"
    by (simp add: regex_test_ecma_runtime)
  then have "checkPathPatterns_literal rt command path pathType escaped escaped patterns
             = checkPathPatterns_literal (ecma_runtime home) command path pathType escaped escaped
                 patterns"
    by (rule checkPathPatterns_literal_engines)
  then show ?thesis
    by (simp add: checkPathPatterns_def literal escaped[simplified]
        replace_leading_tilde_no_tilde[OF no_tilde] Let_def)
qed

lemma matchGlob_reference:
  assumes source: "''^'' @ replace_all_char (CHR ''?'') ''.''
                     (replace_all_char (CHR ''*'') ''.*''
                       (escape_chars (''.+^${}()|[]'' @ [BSL]) (toLowerCase specifier))) @ ''$''
                   = src"
    and agree: "RegExp rt src ''i'' = ecma_RegExp src ''i''"
  shows "matchGlob rt str specifier = matchGlob (ecma_runtime home) str specifier"
  using source[simplified] agree by (simp add: matchGlob_def Let_def ecma_runtime_def)

lemma matchPath_glob_reference:
  assumes glob: "isGlobPattern specifier"
    and no_tilde: "\<not> prefix ''~'' specifier"
    and no_tilde_path: "\<not> prefix ''~'' filePath"
    and source: "''^'' @ replace_all_char (CHR ''?'') ''.''
                     (replace_all_char (CHR ''*'') ''.*''
                       (escape_chars (''.+^${}()|[]'' @ [BSL]) (toLowerCase specifier))) @ ''$''
                   = src"
    and agree: "RegExp rt src ''i'' = ecma_RegExp src ''i''"
  shows "matchPath rt filePath specifier = matchPath (ecma_runtime home) filePath specifier"
  by (simp add: matchPath_def Let_def glob replace_leading_tilde_no_tilde[OF no_tilde]
      replace_leading_tilde_no_tilde[OF no_tilde_path]
      matchGlob_reference[OF source agree, of _ home])

section \<open>Precedence of the tiers\<close>

text \<open>
  C1. For every command and every configuration, if the command matches at least one
  command pattern and also at least one zero-access specifier, \<^verbatim>\<open>checkBashCommand\<close>
  returns the blocked verdict formatted from the first matching command pattern, not one of
  the zero-access tier. More generally the four tiers are consulted in the order command
  patterns, zero-access, read-only, no-delete, and the first match decides: the verdict is
  that of the first matching entry of the first tier that has one, and the later tiers have
  no part in it.
\<close>

theorem tier_precedence:
  "((\<exists>entry \<in> set (bashToolPatterns config). bash_pattern_matches rt command entry)
     \<and> (\<exists>zeroPath \<in> set (zeroAccessPaths config). zero_access_matches rt command zeroPath)
    \<longrightarrow> (\<exists>entry. find (bash_pattern_matches rt command) (bashToolPatterns config) = Some entry
           \<and> checkBashCommand rt command config =
               \<lparr>blocked = True,
                reason = ''Blocked: '' @ BashPattern.reason entry,
                wasAskPattern = Some (ask entry = Some True)\<rparr>))
   \<and> checkBashCommand rt command config =
     (case find (bash_pattern_matches rt command) (bashToolPatterns config) of
        Some entry \<Rightarrow> bash_pattern_verdict entry
      | None \<Rightarrow>
     (case find (zero_access_matches rt command) (zeroAccessPaths config) of
        Some zeroPath \<Rightarrow> zero_access_verdict zeroPath
      | None \<Rightarrow>
     (case find (operation_blocks rt command READ_ONLY_BLOCKED ''read-only path'')
             (readOnlyPaths config) of
        Some path \<Rightarrow>
          as_bash_result (checkPathPatterns rt command path READ_ONLY_BLOCKED ''read-only path'')
      | None \<Rightarrow>
     (case find (operation_blocks rt command NO_DELETE_BLOCKED ''no-delete path'')
             (noDeletePaths config) of
        Some path \<Rightarrow>
          as_bash_result (checkPathPatterns rt command path NO_DELETE_BLOCKED ''no-delete path'')
      | None \<Rightarrow> \<lparr>blocked = False, reason = [], wasAskPattern = None\<rparr>))))"
proof (intro conjI impI)
  assume "(\<exists>entry \<in> set (bashToolPatterns config). bash_pattern_matches rt command entry)
     \<and> (\<exists>zeroPath \<in> set (zeroAccessPaths config). zero_access_matches rt command zeroPath)"
  then obtain e where "e \<in> set (bashToolPatterns config)" "bash_pattern_matches rt command e"
    by blast
  then obtain entry
    where first: "find (bash_pattern_matches rt command) (bashToolPatterns config) = Some entry"
    using find_Some_of_member[of e "bashToolPatterns config" "bash_pattern_matches rt command"]
    by blast
  then have "checkBashCommand rt command config = bash_pattern_verdict entry"
    by (simp add: checkBashCommand_first_match)
  with first
  show "\<exists>entry. find (bash_pattern_matches rt command) (bashToolPatterns config) = Some entry
           \<and> checkBashCommand rt command config =
               \<lparr>blocked = True,
                reason = ''Blocked: '' @ BashPattern.reason entry,
                wasAskPattern = Some (ask entry = Some True)\<rparr>"
    by (auto simp: bash_pattern_verdict_def)
next
  show "checkBashCommand rt command config =
     (case find (bash_pattern_matches rt command) (bashToolPatterns config) of
        Some entry \<Rightarrow> bash_pattern_verdict entry
      | None \<Rightarrow>
     (case find (zero_access_matches rt command) (zeroAccessPaths config) of
        Some zeroPath \<Rightarrow> zero_access_verdict zeroPath
      | None \<Rightarrow>
     (case find (operation_blocks rt command READ_ONLY_BLOCKED ''read-only path'')
             (readOnlyPaths config) of
        Some path \<Rightarrow>
          as_bash_result (checkPathPatterns rt command path READ_ONLY_BLOCKED ''read-only path'')
      | None \<Rightarrow>
     (case find (operation_blocks rt command NO_DELETE_BLOCKED ''no-delete path'')
             (noDeletePaths config) of
        Some path \<Rightarrow>
          as_bash_result (checkPathPatterns rt command path NO_DELETE_BLOCKED ''no-delete path'')
      | None \<Rightarrow> \<lparr>blocked = False, reason = [], wasAskPattern = None\<rparr>))))"
    by (rule checkBashCommand_first_match)
qed

theorem tier_precedence_witness:
  "(\<exists>entry \<in> set (bashToolPatterns sample_policy).
      bash_pattern_matches (ecma_runtime ''/home/dev'') ''sudo RM -rf .env'' entry)
   \<and> (\<exists>zeroPath \<in> set (zeroAccessPaths sample_policy).
      zero_access_matches (ecma_runtime ''/home/dev'') ''sudo RM -rf .env'' zeroPath)
   \<and> checkBashCommand (ecma_runtime ''/home/dev'') ''sudo RM -rf .env'' sample_policy
       = \<lparr>blocked = True, reason = ''Blocked: rm with recursive force'',
          wasAskPattern = Some True\<rparr>"
proof -
  let ?rt = "ecma_runtime ''/home/dev''"
  let ?cmd = "''sudo RM -rf .env''"
  have h1: "\<exists>entry \<in> set (bashToolPatterns sample_policy). bash_pattern_matches ?rt ?cmd entry"
    by code_simp
  have h2: "\<exists>zeroPath \<in> set (zeroAccessPaths sample_policy). zero_access_matches ?rt ?cmd zeroPath"
    by code_simp
  from h1 h2 have h: "(\<exists>entry \<in> set (bashToolPatterns sample_policy).
        bash_pattern_matches ?rt ?cmd entry)
      \<and> (\<exists>zeroPath \<in> set (zeroAccessPaths sample_policy).
        zero_access_matches ?rt ?cmd zeroPath)"
    by (rule conjI)
  note first = tier_precedence[where rt = ?rt and command = ?cmd and config = sample_policy,
      THEN conjunct1, THEN mp, OF h]
  then obtain entry
    where found: "find (bash_pattern_matches ?rt ?cmd) (bashToolPatterns sample_policy) = Some entry"
      and verdict: "checkBashCommand ?rt ?cmd sample_policy =
               \<lparr>blocked = True, reason = ''Blocked: '' @ BashPattern.reason entry,
                wasAskPattern = Some (ask entry = Some True)\<rparr>"
    by blast
  have "find (bash_pattern_matches ?rt ?cmd) (bashToolPatterns sample_policy)
        = Some \<lparr>pattern = BSL # ''brm'' @ BSL # ''s+-rf'', reason = ''rm with recursive force'',
                ask = Some True\<rparr>"
    by code_simp
  with found have "entry = \<lparr>pattern = BSL # ''brm'' @ BSL # ''s+-rf'',
      reason = ''rm with recursive force'', ask = Some True\<rparr>"
    by simp
  with verdict have "checkBashCommand ?rt ?cmd sample_policy
       = \<lparr>blocked = True, reason = ''Blocked: rm with recursive force'',
          wasAskPattern = Some True\<rparr>"
    by simp
  with h1 h2 show ?thesis
    by (intro conjI)
qed

section \<open>Fail-open on an empty policy\<close>

text \<open>
  C2. For the configuration in which all four tiers are empty lists, every query on every
  surface is not blocked: \<^verbatim>\<open>checkBashCommand\<close> returns \<^verbatim>\<open>blocked = false\<close> for every
  command, and \<^verbatim>\<open>checkFilePath\<close> and \<^verbatim>\<open>checkFilePathZeroAccessOnly\<close> return
  \<^verbatim>\<open>blocked = false\<close> for every path, whatever the home directory and the engine.
\<close>

theorem empty_policy_allows_everything:
  "checkBashCommand rt command emptyConfig = \<lparr>blocked = False, reason = [], wasAskPattern = None\<rparr>
   \<and> checkFilePath rt filePath emptyConfig = \<lparr>blocked = False, reason = []\<rparr>
   \<and> checkFilePathZeroAccessOnly rt filePath emptyConfig = \<lparr>blocked = False, reason = []\<rparr>"
  by (simp add: checkBashCommand_def checkFilePath_def checkFilePathZeroAccessOnly_def
      emptyConfig_def)

section \<open>A command pattern that does not compile\<close>

text \<open>
  C3. For every command and configuration, a command pattern that fails to compile as a
  regular expression is skipped without aborting the evaluation: the verdict is the one of
  the configuration without that entry, so the entry never blocks by itself and never keeps
  a later entry from matching and blocking; the evaluation returns a verdict all the same.
\<close>

theorem malformed_command_pattern_is_skipped:
  assumes "RegExp rt (pattern bad) ''i'' = None"
  shows "checkBashCommand rt command (config\<lparr>bashToolPatterns := before @ bad # after\<rparr>)
         = checkBashCommand rt command (config\<lparr>bashToolPatterns := before @ after\<rparr>)"
proof -
  from assms have "\<not> bash_pattern_matches rt command bad"
    by (simp add: bash_pattern_matches_def)
  then have "find (bash_pattern_matches rt command) (before @ bad # after)
             = find (bash_pattern_matches rt command) (before @ after)"
    by (rule find_append_skip)
  then show ?thesis
    by (simp add: checkBashCommand_first_match cong: option.case_cong)
qed

theorem malformed_command_pattern_is_skipped_witness:
  "RegExp (ecma_runtime ''/home/dev'') ''('' ''i'' = None
   \<and> checkBashCommand (ecma_runtime ''/home/dev'') ''rm -rf build''
         (sample_policy\<lparr>bashToolPatterns :=
            [] @ \<lparr>pattern = ''('', reason = ''unbalanced parenthesis'', ask = None\<rparr>
               # [\<lparr>pattern = BSL # ''brm'' @ BSL # ''s+-rf'',
                   reason = ''rm with recursive force'', ask = Some True\<rparr>]\<rparr>)
       = \<lparr>blocked = True, reason = ''Blocked: rm with recursive force'',
          wasAskPattern = Some True\<rparr>"
proof -
  let ?rt = "ecma_runtime ''/home/dev''"
  let ?bad = "\<lparr>pattern = ''('', reason = ''unbalanced parenthesis'', ask = None\<rparr>"
  let ?rm = "\<lparr>pattern = BSL # ''brm'' @ BSL # ''s+-rf'',
              reason = ''rm with recursive force'', ask = Some True\<rparr>"
  have none: "RegExp ?rt ''('' ''i'' = None"
    by code_simp
  then have "RegExp ?rt (pattern ?bad) ''i'' = None"
    by simp
  then have "checkBashCommand ?rt ''rm -rf build''
               (sample_policy\<lparr>bashToolPatterns := [] @ ?bad # [?rm]\<rparr>)
             = checkBashCommand ?rt ''rm -rf build''
               (sample_policy\<lparr>bashToolPatterns := [] @ [?rm]\<rparr>)"
    by (rule malformed_command_pattern_is_skipped)
  moreover have "checkBashCommand ?rt ''rm -rf build''
               (sample_policy\<lparr>bashToolPatterns := [] @ [?rm]\<rparr>)
       = \<lparr>blocked = True, reason = ''Blocked: rm with recursive force'',
          wasAskPattern = Some True\<rparr>"
    by code_simp
  ultimately show ?thesis
    using none by simp
qed

section \<open>Glob specifiers on the path surface\<close>

text \<open>
  C4. With the glob specifier \<^verbatim>\<open>*.pem\<close> among the zero-access paths, the path surface
  blocks the target \<^verbatim>\<open>/tmp/keys/server.pem\<close>, whose basename matches the anchored,
  case-insensitive translation of the glob, and the target \<^verbatim>\<open>/tmp/keys/server.pem.bak\<close> is
  not blocked on account of this entry: neither its basename nor its full path matches, and
  taking the entry out of the configuration leaves the verdict on that target as it is.
  This holds on every runtime whose engine reads the translated glob \<^verbatim>\<open>^.*\.pem$\<close> with
  the flag \<^verbatim>\<open>i\<close> as the engine above does.
\<close>

theorem pem_glob_matches_basename:
  assumes "RegExp rt (''^.*'' @ BSL # ''.pem$'') ''i'' = ecma_RegExp (''^.*'' @ BSL # ''.pem$'') ''i''"
  shows "(''*.pem'' \<in> set (zeroAccessPaths config)
      \<longrightarrow> blocked (checkFilePathZeroAccessOnly rt ''/tmp/keys/server.pem'' config)
          \<and> blocked (checkFilePath rt ''/tmp/keys/server.pem'' config))
   \<and> checkFilePathZeroAccessOnly rt ''/tmp/keys/server.pem''
         (config\<lparr>zeroAccessPaths := ''*.pem'' # others\<rparr>)
       = \<lparr>blocked = True, reason = ''zero-access path *.pem (no operations allowed)''\<rparr>
   \<and> matchGlob rt (basename ''/tmp/keys/server.pem'') ''*.pem''
   \<and> \<not> matchGlob rt (basename ''/tmp/keys/server.pem.bak'') ''*.pem''
   \<and> \<not> matchGlob rt ''/tmp/keys/server.pem.bak'' ''*.pem''
   \<and> \<not> matchPath rt ''/tmp/keys/server.pem.bak'' ''*.pem''
   \<and> checkFilePathZeroAccessOnly rt ''/tmp/keys/server.pem.bak''
         (config\<lparr>zeroAccessPaths := removeAll ''*.pem'' (zeroAccessPaths config)\<rparr>)
       = checkFilePathZeroAccessOnly rt ''/tmp/keys/server.pem.bak'' config
   \<and> checkFilePath rt ''/tmp/keys/server.pem.bak''
         (config\<lparr>zeroAccessPaths := removeAll ''*.pem'' (zeroAccessPaths config)\<rparr>)
       = checkFilePath rt ''/tmp/keys/server.pem.bak'' config"
proof -
  have source: "''^'' @ replace_all_char (CHR ''?'') ''.''
                     (replace_all_char (CHR ''*'') ''.*''
                       (escape_chars (''.+^${}()|[]'' @ [BSL]) (toLowerCase ''*.pem''))) @ ''$''
                = ''^.*'' @ BSL # ''.pem$''"
    by code_simp
  have glob: "isGlobPattern ''*.pem''"
    by code_simp
  have globs: "matchGlob rt str ''*.pem'' = matchGlob (ecma_runtime []) str ''*.pem''" for str
    using source assms by (rule matchGlob_reference)
  have paths: "\<not> prefix ''~'' filePath
      \<Longrightarrow> matchPath rt filePath ''*.pem'' = matchPath (ecma_runtime []) filePath ''*.pem''"
    for filePath
    using glob _ _ source assms by (rule matchPath_glob_reference) simp_all
  have yes: "matchPath rt ''/tmp/keys/server.pem'' ''*.pem''"
    unfolding paths[of "''/tmp/keys/server.pem''", simplified] by code_simp
  have no: "\<not> matchPath rt ''/tmp/keys/server.pem.bak'' ''*.pem''"
    unfolding paths[of "''/tmp/keys/server.pem.bak''", simplified] by code_simp
  have g1: "matchGlob rt (basename ''/tmp/keys/server.pem'') ''*.pem''"
    unfolding globs by code_simp
  have g2: "\<not> matchGlob rt (basename ''/tmp/keys/server.pem.bak'') ''*.pem''"
    unfolding globs by code_simp
  have g3: "\<not> matchGlob rt ''/tmp/keys/server.pem.bak'' ''*.pem''"
    unfolding globs by code_simp
  have member: "''*.pem'' \<in> set (zeroAccessPaths config)
      \<longrightarrow> blocked (checkFilePathZeroAccessOnly rt ''/tmp/keys/server.pem'' config)
          \<and> blocked (checkFilePath rt ''/tmp/keys/server.pem'' config)"
    using yes by (auto simp: checkFilePathZeroAccessOnly_blocked_iff checkFilePath_blocked_iff)
  have first: "checkFilePathZeroAccessOnly rt ''/tmp/keys/server.pem''
         (config\<lparr>zeroAccessPaths := ''*.pem'' # others\<rparr>)
       = \<lparr>blocked = True, reason = ''zero-access path *.pem (no operations allowed)''\<rparr>"
    using yes by (simp add: checkFilePathZeroAccessOnly_def)
  have r1: "checkFilePathZeroAccessOnly rt ''/tmp/keys/server.pem.bak''
         (config\<lparr>zeroAccessPaths := removeAll ''*.pem'' (zeroAccessPaths config)\<rparr>)
       = checkFilePathZeroAccessOnly rt ''/tmp/keys/server.pem.bak'' config"
    using no by (simp add: checkFilePathZeroAccessOnly_def checkZeroAccessFile_removeAll)
  have r2: "checkFilePath rt ''/tmp/keys/server.pem.bak''
         (config\<lparr>zeroAccessPaths := removeAll ''*.pem'' (zeroAccessPaths config)\<rparr>)
       = checkFilePath rt ''/tmp/keys/server.pem.bak'' config"
    using no
    by (simp add: checkFilePath_def checkZeroAccessFile_removeAll cong: option.case_cong)
  from member first g1 g2 g3 no r1 r2 show ?thesis
    by (intro conjI)
qed

theorem pem_glob_matches_basename_witness:
  "RegExp (ecma_runtime ''/home/dev'') (''^.*'' @ BSL # ''.pem$'') ''i''
     = ecma_RegExp (''^.*'' @ BSL # ''.pem$'') ''i''
   \<and> ''*.pem'' \<in> set (zeroAccessPaths sample_policy)
   \<and> blocked (checkFilePathZeroAccessOnly (ecma_runtime ''/home/dev'') ''/tmp/keys/server.pem''
        sample_policy)
   \<and> blocked (checkFilePath (ecma_runtime ''/home/dev'') ''/tmp/keys/server.pem'' sample_policy)"
proof -
  have agree: "RegExp (ecma_runtime ''/home/dev'') (''^.*'' @ BSL # ''.pem$'') ''i''
     = ecma_RegExp (''^.*'' @ BSL # ''.pem$'') ''i''"
    by (simp add: ecma_runtime_def)
  have member: "''*.pem'' \<in> set (zeroAccessPaths sample_policy)"
    by (simp add: sample_policy_def)
  from pem_glob_matches_basename[OF agree, where config = sample_policy,
      THEN conjunct1, THEN mp, OF member] agree member
  show ?thesis
    by (intro conjI) simp_all
qed

section \<open>A directory prefix in the read-only tier\<close>

text \<open>
  C5, as amended. With the literal specifier \<^verbatim>\<open>/etc/\<close> among the read-only paths,
  \<^verbatim>\<open>checkBashCommand\<close> blocks the command \<^verbatim>\<open>echo x > /etc/hosts\<close>. The reason names the
  operation \<^verbatim>\<open>write\<close> and the path \<^verbatim>\<open>/etc/\<close> when no command pattern and no zero-access
  specifier matches the command and \<^verbatim>\<open>/etc/\<close> is the first read-only specifier on which an
  operation of the command is detected; a match in an earlier tier, or on an earlier
  read-only specifier, gives the reason instead. The command \<^verbatim>\<open>cat /etc/hosts\<close> is not
  blocked by this entry: no template of the read-only set matches it, and taking the entry
  out of the configuration leaves the verdict on that command as it is.
  This holds on every runtime whose engine gives, for the templates of the read-only set
  with \<^verbatim>\<open>/etc/\<close> in the place of the path, the answers of the engine above at the two
  commands.
\<close>

theorem etc_read_only_blocks_write_not_read:
  assumes "\<forall>template \<in> set (map fst READ_ONLY_BLOCKED).
           \<forall>command \<in> set [''echo x > /etc/hosts'', ''cat /etc/hosts''].
             regex_test rt (replace_first template ''{path}'' ''/etc/'') [] command
             = ecma_test (replace_first template ''{path}'' ''/etc/'') [] command"
  shows "(''/etc/'' \<in> set (readOnlyPaths config)
      \<longrightarrow> blocked (checkBashCommand rt ''echo x > /etc/hosts'' config))
   \<and> checkPathPatterns rt ''echo x > /etc/hosts'' ''/etc/''
         READ_ONLY_BLOCKED ''read-only path''
       = \<lparr>blocked = True, reason = ''Blocked: write operation on read-only path /etc/''\<rparr>
   \<and> (find (bash_pattern_matches rt ''echo x > /etc/hosts'') (bashToolPatterns config) = None
       \<and> find (zero_access_matches rt ''echo x > /etc/hosts'') (zeroAccessPaths config) = None
       \<and> find (operation_blocks rt ''echo x > /etc/hosts'' READ_ONLY_BLOCKED ''read-only path'')
            (readOnlyPaths config) = Some ''/etc/''
      \<longrightarrow> checkBashCommand rt ''echo x > /etc/hosts'' config
          = \<lparr>blocked = True, reason = ''Blocked: write operation on read-only path /etc/'',
             wasAskPattern = None\<rparr>)
   \<and> \<not> blocked (checkPathPatterns rt ''cat /etc/hosts'' ''/etc/''
         READ_ONLY_BLOCKED ''read-only path'')
   \<and> checkBashCommand rt ''cat /etc/hosts''
         (config\<lparr>readOnlyPaths := removeAll ''/etc/'' (readOnlyPaths config)\<rparr>)
       = checkBashCommand rt ''cat /etc/hosts'' config"
proof -
  have literal: "\<not> isGlobPattern ''/etc/''"
    by code_simp
  have escaped: "escape_chars (''.*+?^${}()|[]'' @ [BSL]) ''/etc/'' = ''/etc/''"
    by code_simp
  from assms
  have at_echo: "\<forall>template \<in> set (map fst READ_ONLY_BLOCKED).
             regex_test rt (replace_first template ''{path}'' ''/etc/'') [] ''echo x > /etc/hosts''
             = ecma_test (replace_first template ''{path}'' ''/etc/'') [] ''echo x > /etc/hosts''"
    and at_cat: "\<forall>template \<in> set (map fst READ_ONLY_BLOCKED).
             regex_test rt (replace_first template ''{path}'' ''/etc/'') [] ''cat /etc/hosts''
             = ecma_test (replace_first template ''{path}'' ''/etc/'') [] ''cat /etc/hosts''"
    by simp_all
  have reference_echo:
    "checkPathPatterns rt ''echo x > /etc/hosts'' ''/etc/'' READ_ONLY_BLOCKED ''read-only path''
     = checkPathPatterns (ecma_runtime []) ''echo x > /etc/hosts'' ''/etc/'' READ_ONLY_BLOCKED
         ''read-only path''"
    using literal _ escaped at_echo by (rule checkPathPatterns_literal_reference) simp
  have reference_cat:
    "checkPathPatterns rt ''cat /etc/hosts'' ''/etc/'' READ_ONLY_BLOCKED ''read-only path''
     = checkPathPatterns (ecma_runtime []) ''cat /etc/hosts'' ''/etc/'' READ_ONLY_BLOCKED
         ''read-only path''"
    using literal _ escaped at_cat by (rule checkPathPatterns_literal_reference) simp
  have wr: "checkPathPatterns rt ''echo x > /etc/hosts'' ''/etc/''
         READ_ONLY_BLOCKED ''read-only path''
       = \<lparr>blocked = True, reason = ''Blocked: write operation on read-only path /etc/''\<rparr>"
    unfolding reference_echo by code_simp
  have rd: "\<not> blocked (checkPathPatterns rt ''cat /etc/hosts'' ''/etc/''
         READ_ONLY_BLOCKED ''read-only path'')"
    unfolding reference_cat by code_simp
  have member: "''/etc/'' \<in> set (readOnlyPaths config)
      \<longrightarrow> blocked (checkBashCommand rt ''echo x > /etc/hosts'' config)"
  proof
    assume inset: "''/etc/'' \<in> set (readOnlyPaths config)"
    from wr have "operation_blocks rt ''echo x > /etc/hosts''
                    READ_ONLY_BLOCKED ''read-only path'' ''/etc/''"
      by (simp add: operation_blocks_def)
    with inset have "\<exists>path \<in> set (readOnlyPaths config).
        operation_blocks rt ''echo x > /etc/hosts''
          READ_ONLY_BLOCKED ''read-only path'' path"
      by blast
    then show "blocked (checkBashCommand rt ''echo x > /etc/hosts'' config)"
      by (simp add: checkBashCommand_blocked_iff)
  qed
  have first: "find (bash_pattern_matches rt ''echo x > /etc/hosts'') (bashToolPatterns config) = None
       \<and> find (zero_access_matches rt ''echo x > /etc/hosts'') (zeroAccessPaths config) = None
       \<and> find (operation_blocks rt ''echo x > /etc/hosts'' READ_ONLY_BLOCKED ''read-only path'')
            (readOnlyPaths config) = Some ''/etc/''
      \<longrightarrow> checkBashCommand rt ''echo x > /etc/hosts'' config
          = \<lparr>blocked = True, reason = ''Blocked: write operation on read-only path /etc/'',
             wasAskPattern = None\<rparr>"
    using wr
    by (clarsimp simp: checkBashCommand_first_match as_bash_result_def)
  have removed: "checkBashCommand rt ''cat /etc/hosts''
         (config\<lparr>readOnlyPaths := removeAll ''/etc/'' (readOnlyPaths config)\<rparr>)
       = checkBashCommand rt ''cat /etc/hosts'' config"
    using rd by (simp add: checkBashCommand_def checkOperationPaths_removeAll cong: option.case_cong)
  from member wr first rd removed show ?thesis
    by (intro conjI)
qed

theorem etc_read_only_blocks_write_not_read_witness:
  "list_all (\<lambda>template. list_all (\<lambda>command.
       regex_test (ecma_runtime ''/home/dev'') (replace_first template ''{path}'' ''/etc/'') []
         command
       = ecma_test (replace_first template ''{path}'' ''/etc/'') [] command)
       [''echo x > /etc/hosts'', ''cat /etc/hosts''])
     (map fst READ_ONLY_BLOCKED)
   \<and> ''/etc/'' \<in> set (readOnlyPaths sample_policy)
   \<and> find (bash_pattern_matches (ecma_runtime ''/home/dev'') ''echo x > /etc/hosts'')
       (bashToolPatterns sample_policy) = None
   \<and> find (zero_access_matches (ecma_runtime ''/home/dev'') ''echo x > /etc/hosts'')
       (zeroAccessPaths sample_policy) = None
   \<and> find (operation_blocks (ecma_runtime ''/home/dev'') ''echo x > /etc/hosts''
         READ_ONLY_BLOCKED ''read-only path'') (readOnlyPaths sample_policy) = Some ''/etc/''
   \<and> checkBashCommand (ecma_runtime ''/home/dev'') ''echo x > /etc/hosts'' sample_policy
       = \<lparr>blocked = True, reason = ''Blocked: write operation on read-only path /etc/'',
          wasAskPattern = None\<rparr>"
proof -
  let ?rt = "ecma_runtime ''/home/dev''"
  have agree: "\<forall>template \<in> set (map fst READ_ONLY_BLOCKED).
           \<forall>command \<in> set [''echo x > /etc/hosts'', ''cat /etc/hosts''].
       regex_test ?rt (replace_first template ''{path}'' ''/etc/'') [] command
       = ecma_test (replace_first template ''{path}'' ''/etc/'') [] command"
    by (simp add: regex_test_ecma_runtime)
  have member: "''/etc/'' \<in> set (readOnlyPaths sample_policy)"
    by (simp add: sample_policy_def)
  have t1: "find (bash_pattern_matches ?rt ''echo x > /etc/hosts'')
              (bashToolPatterns sample_policy) = None"
    by code_simp
  have t2: "find (zero_access_matches ?rt ''echo x > /etc/hosts'')
              (zeroAccessPaths sample_policy) = None"
    by code_simp
  have t3: "find (operation_blocks ?rt ''echo x > /etc/hosts'' READ_ONLY_BLOCKED
              ''read-only path'') (readOnlyPaths sample_policy) = Some ''/etc/''"
    by code_simp
  from t1 t2 t3
  have h: "find (bash_pattern_matches ?rt ''echo x > /etc/hosts'')
              (bashToolPatterns sample_policy) = None
       \<and> find (zero_access_matches ?rt ''echo x > /etc/hosts'')
              (zeroAccessPaths sample_policy) = None
       \<and> find (operation_blocks ?rt ''echo x > /etc/hosts'' READ_ONLY_BLOCKED
              ''read-only path'') (readOnlyPaths sample_policy) = Some ''/etc/''"
    by (intro conjI)
  note all = etc_read_only_blocks_write_not_read[OF agree, where config = sample_policy]
  from all[THEN conjunct2, THEN conjunct2, THEN conjunct1, THEN mp, OF h]
  have exact: "checkBashCommand ?rt ''echo x > /etc/hosts'' sample_policy
       = \<lparr>blocked = True, reason = ''Blocked: write operation on read-only path /etc/'',
          wasAskPattern = None\<rparr>" .
  from agree have listed: "list_all (\<lambda>template. list_all (\<lambda>command.
       regex_test ?rt (replace_first template ''{path}'' ''/etc/'') [] command
       = ecma_test (replace_first template ''{path}'' ''/etc/'') [] command)
       [''echo x > /etc/hosts'', ''cat /etc/hosts''])
     (map fst READ_ONLY_BLOCKED)"
    by (simp only: list_all_iff)
  from listed member t1 t2 t3 exact show ?thesis
    by (intro conjI)
qed

text \<open>
  The claim without the conditions on the earlier tiers fails: a policy that keeps
  \<^verbatim>\<open>/etc/\<close> read-only and \<^verbatim>\<open>/etc/hosts\<close> out of reach blocks the command in the zero-access
  tier, and the reason names neither the operation nor the read-only specifier.
\<close>

theorem etc_read_only_reason_counterexample:
  "''/etc/'' \<in> set (readOnlyPaths
       \<lparr>bashToolPatterns = [], zeroAccessPaths = [''/etc/hosts''],
        readOnlyPaths = [''/etc/''], noDeletePaths = []\<rparr>)
   \<and> checkBashCommand (ecma_runtime ''/home/dev'') ''echo x > /etc/hosts''
       \<lparr>bashToolPatterns = [], zeroAccessPaths = [''/etc/hosts''],
        readOnlyPaths = [''/etc/''], noDeletePaths = []\<rparr>
     = \<lparr>blocked = True,
        reason = ''Blocked: zero-access path /etc/hosts (no operations allowed)'',
        wasAskPattern = None\<rparr>
   \<and> \<not> str_includes ''Blocked: zero-access path /etc/hosts (no operations allowed)'' ''write''
   \<and> reason (checkBashCommand (ecma_runtime ''/home/dev'') ''echo x > /etc/hosts''
       \<lparr>bashToolPatterns = [], zeroAccessPaths = [''/etc/hosts''],
        readOnlyPaths = [''/etc/''], noDeletePaths = []\<rparr>)
     \<noteq> ''Blocked: write operation on read-only path /etc/''"
  by code_simp

section \<open>The scope of the no-delete tier\<close>

text \<open>
  C6. With the literal specifier \<^verbatim>\<open>LICENSE\<close> among the no-delete paths and the other
  tiers not matching, \<^verbatim>\<open>checkBashCommand\<close> blocks the command \<^verbatim>\<open>rm LICENSE\<close> with a verdict
  that names the operation \<^verbatim>\<open>delete\<close>; the command \<^verbatim>\<open>echo x >> LICENSE\<close> is not blocked on
  account of this entry, because the no-delete tier is evaluated against the delete
  templates only, none of which is an append template: no template of that set matches the
  command, and taking the entry out of the configuration leaves the verdict as it is.
  This holds on every runtime whose engine gives, for the delete templates with
  \<^verbatim>\<open>LICENSE\<close> in the place of the path, the answers of the engine above at the two commands.
\<close>

theorem license_no_delete_blocks_rm_not_append:
  assumes "\<forall>template \<in> set (map fst NO_DELETE_BLOCKED).
           \<forall>command \<in> set [''rm LICENSE'', ''echo x >> LICENSE''].
             regex_test rt (replace_first template ''{path}'' ''LICENSE'') [] command
             = ecma_test (replace_first template ''{path}'' ''LICENSE'') [] command"
  shows "(find (bash_pattern_matches rt ''rm LICENSE'') (bashToolPatterns config) = None
     \<and> find (zero_access_matches rt ''rm LICENSE'') (zeroAccessPaths config) = None
     \<and> find (operation_blocks rt ''rm LICENSE'' READ_ONLY_BLOCKED ''read-only path'')
          (readOnlyPaths config) = None
     \<and> ''LICENSE'' \<in> set (noDeletePaths config)
    \<longrightarrow> blocked (checkBashCommand rt ''rm LICENSE'' config)
        \<and> (\<exists>path \<in> set (noDeletePaths config).
              reason (checkBashCommand rt ''rm LICENSE'' config)
              = ''Blocked: delete operation on no-delete path '' @ path))
   \<and> checkPathPatterns rt ''rm LICENSE'' ''LICENSE''
         NO_DELETE_BLOCKED ''no-delete path''
       = \<lparr>blocked = True, reason = ''Blocked: delete operation on no-delete path LICENSE''\<rparr>
   \<and> (find (bash_pattern_matches rt ''rm LICENSE'') (bashToolPatterns config) = None
       \<and> find (zero_access_matches rt ''rm LICENSE'') (zeroAccessPaths config) = None
       \<and> find (operation_blocks rt ''rm LICENSE'' READ_ONLY_BLOCKED ''read-only path'')
            (readOnlyPaths config) = None
       \<and> noDeletePaths config = ''LICENSE'' # others
      \<longrightarrow> checkBashCommand rt ''rm LICENSE'' config
          = \<lparr>blocked = True, reason = ''Blocked: delete operation on no-delete path LICENSE'',
             wasAskPattern = None\<rparr>)
   \<and> map snd NO_DELETE_BLOCKED = [''delete'', ''delete'', ''delete'', ''delete'']
   \<and> \<not> blocked (checkPathPatterns rt ''echo x >> LICENSE'' ''LICENSE''
         NO_DELETE_BLOCKED ''no-delete path'')
   \<and> checkBashCommand rt ''echo x >> LICENSE''
         (config\<lparr>noDeletePaths := removeAll ''LICENSE'' (noDeletePaths config)\<rparr>)
       = checkBashCommand rt ''echo x >> LICENSE'' config"
proof -
  have literal: "\<not> isGlobPattern ''LICENSE''"
    by code_simp
  have escaped: "escape_chars (''.*+?^${}()|[]'' @ [BSL]) ''LICENSE'' = ''LICENSE''"
    by code_simp
  from assms
  have at_rm: "\<forall>template \<in> set (map fst NO_DELETE_BLOCKED).
             regex_test rt (replace_first template ''{path}'' ''LICENSE'') [] ''rm LICENSE''
             = ecma_test (replace_first template ''{path}'' ''LICENSE'') [] ''rm LICENSE''"
    and at_echo: "\<forall>template \<in> set (map fst NO_DELETE_BLOCKED).
             regex_test rt (replace_first template ''{path}'' ''LICENSE'') [] ''echo x >> LICENSE''
             = ecma_test (replace_first template ''{path}'' ''LICENSE'') [] ''echo x >> LICENSE''"
    by simp_all
  have reference_rm:
    "checkPathPatterns rt ''rm LICENSE'' ''LICENSE'' NO_DELETE_BLOCKED ''no-delete path''
     = checkPathPatterns (ecma_runtime []) ''rm LICENSE'' ''LICENSE'' NO_DELETE_BLOCKED
         ''no-delete path''"
    using literal _ escaped at_rm by (rule checkPathPatterns_literal_reference) simp
  have reference_echo:
    "checkPathPatterns rt ''echo x >> LICENSE'' ''LICENSE'' NO_DELETE_BLOCKED ''no-delete path''
     = checkPathPatterns (ecma_runtime []) ''echo x >> LICENSE'' ''LICENSE'' NO_DELETE_BLOCKED
         ''no-delete path''"
    using literal _ escaped at_echo by (rule checkPathPatterns_literal_reference) simp
  have rm: "checkPathPatterns rt ''rm LICENSE'' ''LICENSE'' NO_DELETE_BLOCKED ''no-delete path''
       = \<lparr>blocked = True, reason = ''Blocked: delete operation on no-delete path LICENSE''\<rparr>"
    unfolding reference_rm by code_simp
  have append: "\<not> blocked (checkPathPatterns rt ''echo x >> LICENSE'' ''LICENSE''
         NO_DELETE_BLOCKED ''no-delete path'')"
    unfolding reference_echo by code_simp
  have ops: "map snd NO_DELETE_BLOCKED = [''delete'', ''delete'', ''delete'', ''delete'']"
    by (simp add: NO_DELETE_BLOCKED_def DELETE_PATTERNS_def)
  have general: "find (bash_pattern_matches rt ''rm LICENSE'') (bashToolPatterns config) = None
     \<and> find (zero_access_matches rt ''rm LICENSE'') (zeroAccessPaths config) = None
     \<and> find (operation_blocks rt ''rm LICENSE'' READ_ONLY_BLOCKED ''read-only path'')
          (readOnlyPaths config) = None
     \<and> ''LICENSE'' \<in> set (noDeletePaths config)
    \<longrightarrow> blocked (checkBashCommand rt ''rm LICENSE'' config)
        \<and> (\<exists>path \<in> set (noDeletePaths config).
              reason (checkBashCommand rt ''rm LICENSE'' config)
              = ''Blocked: delete operation on no-delete path '' @ path)"
  proof (intro impI, elim conjE)
    assume t1: "find (bash_pattern_matches rt ''rm LICENSE'') (bashToolPatterns config) = None"
      and t2: "find (zero_access_matches rt ''rm LICENSE'') (zeroAccessPaths config) = None"
      and t3: "find (operation_blocks rt ''rm LICENSE'' READ_ONLY_BLOCKED ''read-only path'')
                 (readOnlyPaths config) = None"
      and member: "''LICENSE'' \<in> set (noDeletePaths config)"
    from rm have "operation_blocks rt ''rm LICENSE'' NO_DELETE_BLOCKED ''no-delete path'' ''LICENSE''"
      by (simp add: operation_blocks_def)
    with member obtain path
      where found: "find (operation_blocks rt ''rm LICENSE'' NO_DELETE_BLOCKED ''no-delete path'')
                      (noDeletePaths config) = Some path"
      using find_Some_of_member[of "''LICENSE''" "noDeletePaths config"
          "operation_blocks rt ''rm LICENSE'' NO_DELETE_BLOCKED ''no-delete path''"]
      by blast
    then have inset: "path \<in> set (noDeletePaths config)"
      and blocks: "blocked (checkPathPatterns rt ''rm LICENSE'' path NO_DELETE_BLOCKED ''no-delete path'')"
      using find_Some_holds[OF found] by (simp_all add: operation_blocks_def)
    from checkPathPatterns_names_operation[OF blocks] obtain p
      where tpl: "p \<in> set NO_DELETE_BLOCKED"
        and verdict: "checkPathPatterns rt ''rm LICENSE'' path NO_DELETE_BLOCKED ''no-delete path''
                      = operation_verdict (snd p) ''no-delete path'' path"
      by blast
    from tpl have "snd p \<in> set (map snd NO_DELETE_BLOCKED)"
      by simp
    with ops have "snd p = ''delete''"
      by simp
    with verdict t1 t2 t3 found
    have "checkBashCommand rt ''rm LICENSE'' config
          = \<lparr>blocked = True, reason = ''Blocked: delete operation on no-delete path '' @ path,
             wasAskPattern = None\<rparr>"
      by (simp add: checkBashCommand_first_match as_bash_result_def operation_verdict_def)
    with inset show "blocked (checkBashCommand rt ''rm LICENSE'' config)
        \<and> (\<exists>path \<in> set (noDeletePaths config).
              reason (checkBashCommand rt ''rm LICENSE'' config)
              = ''Blocked: delete operation on no-delete path '' @ path)"
      by auto
  qed
  have first: "find (bash_pattern_matches rt ''rm LICENSE'') (bashToolPatterns config) = None
       \<and> find (zero_access_matches rt ''rm LICENSE'') (zeroAccessPaths config) = None
       \<and> find (operation_blocks rt ''rm LICENSE'' READ_ONLY_BLOCKED ''read-only path'')
            (readOnlyPaths config) = None
       \<and> noDeletePaths config = ''LICENSE'' # others
      \<longrightarrow> checkBashCommand rt ''rm LICENSE'' config
          = \<lparr>blocked = True, reason = ''Blocked: delete operation on no-delete path LICENSE'',
             wasAskPattern = None\<rparr>"
    using rm
    by (clarsimp simp: checkBashCommand_first_match operation_blocks_def as_bash_result_def)
  have removed: "checkBashCommand rt ''echo x >> LICENSE''
         (config\<lparr>noDeletePaths := removeAll ''LICENSE'' (noDeletePaths config)\<rparr>)
       = checkBashCommand rt ''echo x >> LICENSE'' config"
    using append by (simp add: checkBashCommand_def checkOperationPaths_removeAll cong: option.case_cong)
  from general rm first ops append removed show ?thesis
    by (intro conjI)
qed

theorem license_no_delete_blocks_rm_not_append_witness:
  "list_all (\<lambda>template. list_all (\<lambda>command.
       regex_test (ecma_runtime ''/home/dev'') (replace_first template ''{path}'' ''LICENSE'') []
         command
       = ecma_test (replace_first template ''{path}'' ''LICENSE'') [] command)
       [''rm LICENSE'', ''echo x >> LICENSE''])
     (map fst NO_DELETE_BLOCKED)
   \<and> find (bash_pattern_matches (ecma_runtime ''/home/dev'') ''rm LICENSE'')
     (bashToolPatterns sample_policy) = None
   \<and> find (zero_access_matches (ecma_runtime ''/home/dev'') ''rm LICENSE'')
     (zeroAccessPaths sample_policy) = None
   \<and> find (operation_blocks (ecma_runtime ''/home/dev'') ''rm LICENSE'' READ_ONLY_BLOCKED
       ''read-only path'') (readOnlyPaths sample_policy) = None
   \<and> ''LICENSE'' \<in> set (noDeletePaths sample_policy)
   \<and> noDeletePaths sample_policy = ''LICENSE'' # []
   \<and> blocked (checkBashCommand (ecma_runtime ''/home/dev'') ''rm LICENSE'' sample_policy)
   \<and> (\<exists>path \<in> set (noDeletePaths sample_policy).
        reason (checkBashCommand (ecma_runtime ''/home/dev'') ''rm LICENSE'' sample_policy)
        = ''Blocked: delete operation on no-delete path '' @ path)
   \<and> checkBashCommand (ecma_runtime ''/home/dev'') ''rm LICENSE'' sample_policy
       = \<lparr>blocked = True, reason = ''Blocked: delete operation on no-delete path LICENSE'',
          wasAskPattern = None\<rparr>"
proof -
  let ?rt = "ecma_runtime ''/home/dev''"
  have agree: "\<forall>template \<in> set (map fst NO_DELETE_BLOCKED).
           \<forall>command \<in> set [''rm LICENSE'', ''echo x >> LICENSE''].
       regex_test ?rt (replace_first template ''{path}'' ''LICENSE'') [] command
       = ecma_test (replace_first template ''{path}'' ''LICENSE'') [] command"
    by (simp add: regex_test_ecma_runtime)
  have t1: "find (bash_pattern_matches ?rt ''rm LICENSE'') (bashToolPatterns sample_policy) = None"
    by code_simp
  have t2: "find (zero_access_matches ?rt ''rm LICENSE'') (zeroAccessPaths sample_policy) = None"
    by code_simp
  have t3: "find (operation_blocks ?rt ''rm LICENSE'' READ_ONLY_BLOCKED ''read-only path'')
              (readOnlyPaths sample_policy) = None"
    by code_simp
  have member: "''LICENSE'' \<in> set (noDeletePaths sample_policy)"
    by (simp add: sample_policy_def)
  have t4: "noDeletePaths sample_policy = ''LICENSE'' # []"
    by (simp add: sample_policy_def)
  from t1 t2 t3 member
  have h: "find (bash_pattern_matches ?rt ''rm LICENSE'') (bashToolPatterns sample_policy) = None
     \<and> find (zero_access_matches ?rt ''rm LICENSE'') (zeroAccessPaths sample_policy) = None
     \<and> find (operation_blocks ?rt ''rm LICENSE'' READ_ONLY_BLOCKED ''read-only path'')
          (readOnlyPaths sample_policy) = None
     \<and> ''LICENSE'' \<in> set (noDeletePaths sample_policy)"
    by (intro conjI)
  from t1 t2 t3 t4
  have h': "find (bash_pattern_matches ?rt ''rm LICENSE'') (bashToolPatterns sample_policy) = None
     \<and> find (zero_access_matches ?rt ''rm LICENSE'') (zeroAccessPaths sample_policy) = None
     \<and> find (operation_blocks ?rt ''rm LICENSE'' READ_ONLY_BLOCKED ''read-only path'')
          (readOnlyPaths sample_policy) = None
     \<and> noDeletePaths sample_policy = ''LICENSE'' # []"
    by (intro conjI)
  note all = license_no_delete_blocks_rm_not_append[OF agree, where config = sample_policy
      and others = "[]"]
  from all[THEN conjunct1, THEN mp, OF h]
  have named: "blocked (checkBashCommand ?rt ''rm LICENSE'' sample_policy)
        \<and> (\<exists>path \<in> set (noDeletePaths sample_policy).
             reason (checkBashCommand ?rt ''rm LICENSE'' sample_policy)
             = ''Blocked: delete operation on no-delete path '' @ path)" .
  from all[THEN conjunct2, THEN conjunct2, THEN conjunct1, THEN mp, OF h']
  have exact: "checkBashCommand ?rt ''rm LICENSE'' sample_policy
       = \<lparr>blocked = True, reason = ''Blocked: delete operation on no-delete path LICENSE'',
          wasAskPattern = None\<rparr>" .
  from agree have listed: "list_all (\<lambda>template. list_all (\<lambda>command.
       regex_test ?rt (replace_first template ''{path}'' ''LICENSE'') [] command
       = ecma_test (replace_first template ''{path}'' ''LICENSE'') [] command)
       [''rm LICENSE'', ''echo x >> LICENSE''])
     (map fst NO_DELETE_BLOCKED)"
    by (simp only: list_all_iff)
  from named have n1: "blocked (checkBashCommand ?rt ''rm LICENSE'' sample_policy)"
    and n2: "\<exists>path \<in> set (noDeletePaths sample_policy).
             reason (checkBashCommand ?rt ''rm LICENSE'' sample_policy)
             = ''Blocked: delete operation on no-delete path '' @ path"
    by simp_all
  from listed t1 t2 t3 member t4 n1 n2 exact show ?thesis
    by (intro conjI)
qed

section \<open>Advisory command patterns\<close>

text \<open>
  C7. For every command and every configuration, the first command pattern whose regular
  expression matches the command (the engine's search with the flag \<^verbatim>\<open>i\<close>) gives an
  immediate blocked verdict with that entry's reason, and the verdict's \<^verbatim>\<open>blocked\<close> field and
  reason are the same however the advisory flags \<^verbatim>\<open>ask\<close> of the entries are set.
\<close>

theorem first_command_pattern_blocks_whatever_ask:
  assumes "find (bash_pattern_matches rt command) (bashToolPatterns config) = Some entry"
  shows "checkBashCommand rt command config =
           \<lparr>blocked = True,
            reason = ''Blocked: '' @ BashPattern.reason entry,
            wasAskPattern = Some (ask entry = Some True)\<rparr>
         \<and> blocked (checkBashCommand rt command
              (config\<lparr>bashToolPatterns := map (\<lambda>e. e\<lparr>ask := f e\<rparr>) (bashToolPatterns config)\<rparr>))
           = True
         \<and> reason (checkBashCommand rt command
              (config\<lparr>bashToolPatterns := map (\<lambda>e. e\<lparr>ask := f e\<rparr>) (bashToolPatterns config)\<rparr>))
           = ''Blocked: '' @ BashPattern.reason entry"
  using assms
  by (simp add: checkBashCommand_first_match find_map_ask bash_pattern_verdict_def)

theorem first_command_pattern_blocks_whatever_ask_witness:
  "find (bash_pattern_matches (ecma_runtime ''/home/dev'') ''cd /tmp && RM  -rf x'')
     (bashToolPatterns sample_policy)
     = Some \<lparr>pattern = BSL # ''brm'' @ BSL # ''s+-rf'', reason = ''rm with recursive force'',
             ask = Some True\<rparr>
   \<and> checkBashCommand (ecma_runtime ''/home/dev'') ''cd /tmp && RM  -rf x'' sample_policy
       = \<lparr>blocked = True, reason = ''Blocked: rm with recursive force'',
          wasAskPattern = Some True\<rparr>
   \<and> blocked (checkBashCommand (ecma_runtime ''/home/dev'') ''cd /tmp && RM  -rf x''
        (sample_policy\<lparr>bashToolPatterns :=
           map (\<lambda>e. e\<lparr>ask := None\<rparr>) (bashToolPatterns sample_policy)\<rparr>)) = True
   \<and> reason (checkBashCommand (ecma_runtime ''/home/dev'') ''cd /tmp && RM  -rf x''
        (sample_policy\<lparr>bashToolPatterns :=
           map (\<lambda>e. e\<lparr>ask := None\<rparr>) (bashToolPatterns sample_policy)\<rparr>))
       = ''Blocked: rm with recursive force''"
proof -
  have found: "find (bash_pattern_matches (ecma_runtime ''/home/dev'') ''cd /tmp && RM  -rf x'')
     (bashToolPatterns sample_policy)
     = Some \<lparr>pattern = BSL # ''brm'' @ BSL # ''s+-rf'', reason = ''rm with recursive force'',
             ask = Some True\<rparr>"
    by code_simp
  from first_command_pattern_blocks_whatever_ask[OF found, where f = "\<lambda>_. None"] found
  show ?thesis
    by simp
qed

section \<open>What the path surface reads of the configuration\<close>

text \<open>
  C8. The path surface never consults the no-delete tier or the command patterns: two
  configurations that agree on \<^verbatim>\<open>zeroAccessPaths\<close> and \<^verbatim>\<open>readOnlyPaths\<close> give the same
  verdict of \<^verbatim>\<open>checkFilePath\<close> for every path, and two configurations that agree on
  \<^verbatim>\<open>zeroAccessPaths\<close> give the same verdict of \<^verbatim>\<open>checkFilePathZeroAccessOnly\<close>.
\<close>

theorem path_surface_frame:
  "(zeroAccessPaths config = zeroAccessPaths config'
      \<and> readOnlyPaths config = readOnlyPaths config'
    \<longrightarrow> checkFilePath rt filePath config = checkFilePath rt filePath config')
   \<and> (zeroAccessPaths config = zeroAccessPaths config'
    \<longrightarrow> checkFilePathZeroAccessOnly rt filePath config
        = checkFilePathZeroAccessOnly rt filePath config')"
  by (simp add: checkFilePath_def checkFilePathZeroAccessOnly_def cong: option.case_cong)

theorem path_surface_frame_witness:
  "zeroAccessPaths sample_policy
     = zeroAccessPaths (sample_policy\<lparr>bashToolPatterns := [], noDeletePaths := [''README.md'']\<rparr>)
   \<and> readOnlyPaths sample_policy
     = readOnlyPaths (sample_policy\<lparr>bashToolPatterns := [], noDeletePaths := [''README.md'']\<rparr>)
   \<and> checkFilePath (ecma_runtime ''/home/dev'') ''/etc/passwd'' sample_policy
     = checkFilePath (ecma_runtime ''/home/dev'') ''/etc/passwd''
         (sample_policy\<lparr>bashToolPatterns := [], noDeletePaths := [''README.md'']\<rparr>)
   \<and> checkFilePathZeroAccessOnly (ecma_runtime ''/home/dev'') ''/etc/passwd'' sample_policy
     = checkFilePathZeroAccessOnly (ecma_runtime ''/home/dev'') ''/etc/passwd''
         (sample_policy\<lparr>bashToolPatterns := [], noDeletePaths := [''README.md'']\<rparr>)"
  using path_surface_frame[where config = sample_policy
      and config' = "sample_policy\<lparr>bashToolPatterns := [], noDeletePaths := [''README.md'']\<rparr>"
      and rt = "ecma_runtime ''/home/dev''" and filePath = "''/etc/passwd''"]
  by simp

section \<open>The empty path specifier\<close>

text \<open>
  C10. The empty string is a literal path specifier that matches everything:
  \<^verbatim>\<open>matchPath(filePath, "")\<close> is true for every path, and a configuration whose
  \<^verbatim>\<open>zeroAccessPaths\<close> contains the empty string blocks every path query and every bash
  command.
\<close>

theorem empty_specifier_matches_everything:
  "matchPath rt filePath []
   \<and> ([] \<in> set (zeroAccessPaths config)
      \<longrightarrow> blocked (checkFilePath rt filePath config)
          \<and> blocked (checkFilePathZeroAccessOnly rt filePath config)
          \<and> blocked (checkBashCommand rt command config))"
proof (intro conjI impI)
  show "matchPath rt filePath []"
    by (rule matchPath_empty_specifier)
next
  assume member: "[] \<in> set (zeroAccessPaths config)"
  then have path: "\<exists>zeroPath \<in> set (zeroAccessPaths config). matchPath rt filePath zeroPath"
    using matchPath_empty_specifier[of rt filePath] by blast
  from member
  have cmd: "\<exists>zeroPath \<in> set (zeroAccessPaths config). zero_access_matches rt command zeroPath"
    using zero_access_matches_empty_specifier[of rt command] by blast
  from path show "blocked (checkFilePath rt filePath config)"
    by (simp add: checkFilePath_blocked_iff)
  from path show "blocked (checkFilePathZeroAccessOnly rt filePath config)"
    by (simp add: checkFilePathZeroAccessOnly_blocked_iff)
  from cmd show "blocked (checkBashCommand rt command config)"
    by (simp add: checkBashCommand_blocked_iff)
qed

theorem empty_specifier_matches_everything_witness:
  "[] \<in> set (zeroAccessPaths (sample_policy\<lparr>zeroAccessPaths := [''.env'', []]\<rparr>))
   \<and> blocked (checkFilePath (ecma_runtime ''/home/dev'') ''/srv/app/main.ts''
        (sample_policy\<lparr>zeroAccessPaths := [''.env'', []]\<rparr>))
   \<and> blocked (checkFilePathZeroAccessOnly (ecma_runtime ''/home/dev'') ''/srv/app/main.ts''
        (sample_policy\<lparr>zeroAccessPaths := [''.env'', []]\<rparr>))
   \<and> blocked (checkBashCommand (ecma_runtime ''/home/dev'') ''ls''
        (sample_policy\<lparr>zeroAccessPaths := [''.env'', []]\<rparr>))"
proof -
  have member: "[] \<in> set (zeroAccessPaths (sample_policy\<lparr>zeroAccessPaths := [''.env'', []]\<rparr>))"
    by simp
  from empty_specifier_matches_everything[where rt = "ecma_runtime ''/home/dev''"
      and filePath = "''/srv/app/main.ts''" and command = "''ls''"
      and config = "sample_policy\<lparr>zeroAccessPaths := [''.env'', []]\<rparr>",
      THEN conjunct2, THEN mp, OF member] member
  show ?thesis
    by (intro conjI) simp_all
qed

end
